theory Spec2Isabelle
  imports Complex_Main "HOL-Library.AList" "HOL-Library.Sublist"
    "HOL-Library.List_Lexorder" "HOL-Library.Char_ord"
begin

section \<open>JavaScript values\<close>

text \<open>
  The values a record field, a filter operand or a generated datum can hold: the JSON
  values and \<open>undefined\<close>. Numbers are exact rationals (the doubles of the runtime are
  idealised; NaN is the missing result of a conversion, never a stored value). An object
  is the list of its own properties in insertion order, with distinct keys.
\<close>

datatype jsval =
    JUndefined
  | JNull
  | JBool bool
  | JNum rat
  | JStr string
  | JArr "jsval list"
  | JObj "(string \<times> jsval) list"

type_synonym item = "(string \<times> jsval) list"

datatype error = TypeError | SyntaxError | GenerationFailure | PersistenceFailure

text \<open>\<open>item[key]\<close>: a missing property reads as \<open>undefined\<close>.\<close>

definition get_field :: "item \<Rightarrow> string \<Rightarrow> jsval" where
  "get_field r k = (case map_of r k of None \<Rightarrow> JUndefined | Some v \<Rightarrow> v)"

text \<open>\<open>{...r, k: v}\<close>: an existing key keeps its place, a new key goes last.\<close>

definition set_field :: "string \<Rightarrow> jsval \<Rightarrow> item \<Rightarrow> item" where
  "set_field k v r = AList.update k v r"

text \<open>\<open>{...a, ...b}\<close>: the properties of \<open>b\<close> are written over \<open>a\<close> from left to right.\<close>

definition spread :: "item \<Rightarrow> item \<Rightarrow> item" where
  "spread a b = foldl (\<lambda>acc (k, v). set_field k v acc) a b"

text \<open>Truthiness, as used by \<open>x || y\<close>.\<close>

fun truthy :: "jsval \<Rightarrow> bool" where
  "truthy JUndefined = False"
| "truthy JNull = False"
| "truthy (JBool b) = b"
| "truthy (JNum n) = (n \<noteq> 0)"
| "truthy (JStr s) = (s \<noteq> [])"
| "truthy (JArr _) = True"
| "truthy (JObj _) = True"

definition js_or :: "jsval \<Rightarrow> jsval \<Rightarrow> jsval" where
  "js_or a b = (if truthy a then a else b)"

fun is_ref :: "jsval \<Rightarrow> bool" where
  "is_ref (JArr _) = True"
| "is_ref (JObj _) = True"
| "is_ref _ = False"

text \<open>\<open>typeof v === 'object'\<close> holds of arrays, objects and \<open>null\<close>.\<close>

definition typeof_object :: "jsval \<Rightarrow> bool" where
  "typeof_object v = (is_ref v \<or> v = JNull)"

text \<open>
  \<open>a === b\<close>. Primitives are compared by value. Arrays and objects are compared by
  reference, and references are not part of this model: an operand built by the caller
  is a different object from anything a record holds, so the comparison is false.
  \<open>Array.prototype.includes\<close> compares the same way (no NaN is stored).
\<close>

definition strict_eq :: "jsval \<Rightarrow> jsval \<Rightarrow> bool" where
  "strict_eq a b = (a = b \<and> \<not> is_ref a)"

subsection \<open>The host runtime\<close>

text \<open>
  What the JavaScript runtime supplies and this development does not embed: the
  grammar that reads a string as a number (\<open>None\<close> is NaN), the conversion of an array
  or object to a primitive, the conversion of a value to a string, and \<open>JSON.parse\<close>. Every function
  that coerces takes them as \<open>host\<close>.
\<close>

record host =
  stringToNumber :: "string \<Rightarrow> rat option"
  objectToPrimitive :: "jsval \<Rightarrow> jsval"
  valueToString :: "jsval \<Rightarrow> string"
  jsonParse :: "string \<Rightarrow> error + jsval"

definition to_primitive :: "host \<Rightarrow> jsval \<Rightarrow> jsval" where
  "to_primitive h v = (if is_ref v then objectToPrimitive h v else v)"

text \<open>\<open>Number(v)\<close>; \<open>None\<close> is NaN.\<close>

fun prim_to_number :: "host \<Rightarrow> jsval \<Rightarrow> rat option" where
  "prim_to_number h JUndefined = None"
| "prim_to_number h JNull = Some 0"
| "prim_to_number h (JBool b) = Some (if b then 1 else 0)"
| "prim_to_number h (JNum n) = Some n"
| "prim_to_number h (JStr s) = stringToNumber h s"
| "prim_to_number h (JArr _) = None"
| "prim_to_number h (JObj _) = None"

definition to_number :: "host \<Rightarrow> jsval \<Rightarrow> rat option" where
  "to_number h v = prim_to_number h (to_primitive h v)"

text \<open>
  The relational comparison \<open>a < b\<close> of the language: two strings compare by code
  unit, anything else as numbers, and a NaN on either side leaves the result undefined
  (\<open>None\<close>). The four operators are read off it as the language defines them.
\<close>

definition js_lt3 :: "host \<Rightarrow> jsval \<Rightarrow> jsval \<Rightarrow> bool option" where
  "js_lt3 h a b =
     (case (to_primitive h a, to_primitive h b) of
        (JStr s, JStr t) \<Rightarrow> Some (s < t)
      | (pa, pb) \<Rightarrow>
          (case (prim_to_number h pa, prim_to_number h pb) of
             (Some x, Some y) \<Rightarrow> Some (x < y)
           | _ \<Rightarrow> None))"

definition js_lt :: "host \<Rightarrow> jsval \<Rightarrow> jsval \<Rightarrow> bool" where
  "js_lt h a b = (js_lt3 h a b = Some True)"

definition js_gt :: "host \<Rightarrow> jsval \<Rightarrow> jsval \<Rightarrow> bool" where
  "js_gt h a b = (js_lt3 h b a = Some True)"

definition js_le :: "host \<Rightarrow> jsval \<Rightarrow> jsval \<Rightarrow> bool" where
  "js_le h a b = (js_lt3 h b a = Some False)"

definition js_ge :: "host \<Rightarrow> jsval \<Rightarrow> jsval \<Rightarrow> bool" where
  "js_ge h a b = (js_lt3 h a b = Some False)"

section \<open>DataStore.applyFilters\<close>

text \<open>
  \<open>value.$op\<close> on a filter value that is an array or an object: an array has none of
  the operator properties.
\<close>

definition opOf :: "jsval \<Rightarrow> string \<Rightarrow> jsval" where
  "opOf v k = (case v of JObj kvs \<Rightarrow> get_field kvs k | _ \<Rightarrow> JUndefined)"

text \<open>
  \<open>operand.includes(itemValue)\<close>: membership for an array, substring search for a
  string, and a TypeError for anything else, which has no such method.
\<close>

definition js_includes :: "host \<Rightarrow> jsval \<Rightarrow> jsval \<Rightarrow> error + bool" where
  "js_includes h operand itemValue =
     (case operand of
        JArr xs \<Rightarrow> Inr (list_ex (strict_eq itemValue) xs)
      | JStr s \<Rightarrow> Inr (sublist (valueToString h itemValue) s)
      | _ \<Rightarrow> Inl TypeError)"

text \<open>
  The callback of \<open>Object.entries(filter).every\<close>, for one entry of the filter and one
  item. Reading \<open>value.$eq\<close> off \<open>null\<close> throws.
\<close>

definition matchEntry :: "host \<Rightarrow> item \<Rightarrow> string \<times> jsval \<Rightarrow> error + bool" where
  "matchEntry h it e =
     (let key = fst e; value = snd e in
      if value = JUndefined then Inr True
      else
        let itemValue = get_field it key in
        if \<not> typeof_object value then Inr (strict_eq itemValue value)
        else if value = JNull then Inl TypeError
        else if opOf value ''$eq'' \<noteq> JUndefined then Inr (strict_eq itemValue (opOf value ''$eq''))
        else if opOf value ''$ne'' \<noteq> JUndefined then Inr (\<not> strict_eq itemValue (opOf value ''$ne''))
        else if opOf value ''$gt'' \<noteq> JUndefined then Inr (js_gt h itemValue (opOf value ''$gt''))
        else if opOf value ''$gte'' \<noteq> JUndefined then Inr (js_ge h itemValue (opOf value ''$gte''))
        else if opOf value ''$lt'' \<noteq> JUndefined then Inr (js_lt h itemValue (opOf value ''$lt''))
        else if opOf value ''$lte'' \<noteq> JUndefined then Inr (js_le h itemValue (opOf value ''$lte''))
        else if opOf value ''$in'' \<noteq> JUndefined then js_includes h (opOf value ''$in'') itemValue
        else if opOf value ''$nin'' \<noteq> JUndefined then
          (case js_includes h (opOf value ''$nin'') itemValue of
             Inl x \<Rightarrow> Inl x
           | Inr b \<Rightarrow> Inr (\<not> b))
        else Inr True)"

text \<open>\<open>every\<close> stops at the first entry that fails, and a throw ends the whole call.\<close>

fun everyEntry :: "host \<Rightarrow> item \<Rightarrow> (string \<times> jsval) list \<Rightarrow> error + bool" where
  "everyEntry h it [] = Inr True"
| "everyEntry h it (e # es) =
     (case matchEntry h it e of
        Inl x \<Rightarrow> Inl x
      | Inr b \<Rightarrow> if b then everyEntry h it es else Inr False)"

fun applyFilters :: "host \<Rightarrow> item list \<Rightarrow> (string \<times> jsval) list \<Rightarrow> error + item list" where
  "applyFilters h [] f = Inr []"
| "applyFilters h (it # its) f =
     (case everyEntry h it f of
        Inl x \<Rightarrow> Inl x
      | Inr b \<Rightarrow>
          (case applyFilters h its f of
             Inl x \<Rightarrow> Inl x
           | Inr rest \<Rightarrow> Inr (if b then it # rest else rest)))"

text \<open>
  The operators in the order the source tests them, and what each one means for an
  item value and an operand, as the specification words it.
\<close>

definition supportedOps :: "string list" where
  "supportedOps = [''$eq'', ''$ne'', ''$gt'', ''$gte'', ''$lt'', ''$lte'', ''$in'', ''$nin'']"

definition operatorMeaning :: "host \<Rightarrow> string \<Rightarrow> jsval \<Rightarrow> jsval \<Rightarrow> error + bool" where
  "operatorMeaning h op itemValue operand =
     (if op = ''$eq'' then Inr (strict_eq itemValue operand)
      else if op = ''$ne'' then Inr (\<not> strict_eq itemValue operand)
      else if op = ''$gt'' then Inr (js_gt h itemValue operand)
      else if op = ''$gte'' then Inr (js_ge h itemValue operand)
      else if op = ''$lt'' then Inr (js_lt h itemValue operand)
      else if op = ''$lte'' then Inr (js_le h itemValue operand)
      else if op = ''$in'' then js_includes h operand itemValue
      else if op = ''$nin'' then
        (case js_includes h operand itemValue of Inl x \<Rightarrow> Inl x | Inr b \<Rightarrow> Inr (\<not> b))
      else Inr True)"

section \<open>Schemas, collaborators and the state of the process\<close>

text \<open>
  A schema node carries \<open>_meta.optional\<close> and \<open>_meta.schemaType\<close>. An object node has
  its \<open>_shape\<close> in enumeration order, an array node its \<open>_element\<close>; every other node
  (\<open>uuid\<close>, \<open>join\<close>, \<open>collectionsMeta.total\<close>, ...) is a leaf tagged with its schema type.
\<close>

datatype schema =
    SObject bool "(string \<times> schema) list"
  | SArray bool schema
  | SLeaf bool string

record relationConfig =
  rtype :: string
  collection :: string
  foreignKey :: string

text \<open>
  A registry entry: the relations of the collection's configuration, in the order of
  \<open>Object.entries\<close>, and a reference to its store (an address of the heap below).
\<close>

record metadata =
  relations :: "(string \<times> relationConfig) list"
  mstore :: "nat option"

text \<open>
  Everything the store reads from outside itself. The registry, the seed order and
  \<open>resolveJoins\<close> belong to other modules (\<open>collectionRegistry\<close>, \<open>relations\<close>) and are
  taken as given: whatever they return. The configuration is what
  \<open>getConfig()\<close> returns. The clock, \<open>Math.random\<close> and Faker are sequences indexed by the
  number of readings made so far. The AI provider and the persistence backends answer
  with a value or throw.
\<close>

record config =
  generateMode :: "string option"
  persistenceMode :: "string option"
  fakerSeed :: "nat option"

record entropy =
  clockISO :: "nat \<Rightarrow> string"
  clockMs :: "nat \<Rightarrow> string"
  randomLow :: "nat \<Rightarrow> bool"
  randomText :: "nat \<Rightarrow> string"
  fakerDraw :: "nat \<Rightarrow> nat"
  fakerLeaf :: "string \<Rightarrow> nat \<Rightarrow> jsval"

record backends =
  generateWithAI :: "string \<Rightarrow> error + jsval"
  loadFromLocalStorage :: "string \<Rightarrow> error + item list option"
  loadFromFile :: "string \<Rightarrow> error + item list option"
  loadFromEdgeFunction :: "string \<Rightarrow> error + item list option"
  saveToLocalStorage :: "string \<Rightarrow> item list \<Rightarrow> error + unit"
  saveToFile :: "string \<Rightarrow> item list \<Rightarrow> error + unit"
  createInEdgeFunction :: "string \<Rightarrow> item \<Rightarrow> error + unit"
  updateInEdgeFunction :: "string \<Rightarrow> jsval \<Rightarrow> item \<Rightarrow> error + unit"
  deleteFromEdgeFunction :: "string \<Rightarrow> jsval \<Rightarrow> error + unit"

record env =
  hostRt :: host
  getConfig :: config
  registry :: "(string \<times> metadata) list"
  seedOrder :: "string list"
  isBrowser :: bool
  rand :: entropy
  ext :: backends
  resolveJoins :: "item list \<Rightarrow> schema \<Rightarrow> (string \<times> relationConfig) list \<Rightarrow> string \<Rightarrow> item list"

text \<open>
  The fields of a \<open>DataStore\<close>. \<open>sdata\<close> is the \<open>Map\<close> from id to record: a list of
  entries in insertion order, where setting an existing key keeps its place.
\<close>

record store =
  sdata :: "(jsval \<times> item) list"
  sschema :: schema
  collectionName :: string
  seedCount :: nat
  seedInstruction :: string
  initialized :: bool

text \<open>
  The mutable state of the process: the static flag of \<open>DataStore\<close>, the store objects
  by address, and how many times the clock, \<open>Math.random\<close> and Faker have been read.
\<close>

record world =
  isInitializingAll :: bool
  heap :: "nat \<Rightarrow> store"
  ticks :: nat
  mathPos :: nat
  fakerPos :: nat

definition withStore :: "nat \<Rightarrow> store \<Rightarrow> world \<Rightarrow> world" where
  "withStore a st w = w\<lparr>heap := (heap w)(a := st)\<rparr>"

text \<open>\<open>Map.set\<close>, \<open>Map.get\<close>, \<open>Map.keys\<close> and \<open>Map.values\<close>.\<close>

definition mapSet :: "jsval \<Rightarrow> item \<Rightarrow> (jsval \<times> item) list \<Rightarrow> (jsval \<times> item) list" where
  "mapSet k v m = AList.update k v m"

definition mapGet :: "(jsval \<times> item) list \<Rightarrow> jsval \<Rightarrow> item option" where
  "mapGet m k = map_of m k"

definition mapKeys :: "(jsval \<times> item) list \<Rightarrow> jsval list" where
  "mapKeys m = map fst m"

definition mapValues :: "(jsval \<times> item) list \<Rightarrow> item list" where
  "mapValues m = map snd m"

text \<open>\<open>items.forEach(item => data.set(item.id, item))\<close>\<close>

definition setAll :: "item list \<Rightarrow> (jsval \<times> item) list \<Rightarrow> (jsval \<times> item) list" where
  "setAll xs m = foldl (\<lambda>acc x. mapSet (get_field x ''id'') x acc) m xs"

text \<open>\<open>try { body } catch (error) { handler }\<close>\<close>

definition tryCatch :: "error + 'a \<Rightarrow> (error \<Rightarrow> error + 'a) \<Rightarrow> error + 'a" where
  "tryCatch body handler = (case body of Inl e \<Rightarrow> handler e | Inr x \<Rightarrow> Inr x)"

text \<open>\<open>!persistenceMode || persistenceMode === 'memory'\<close>\<close>

definition noPersistence :: "env \<Rightarrow> bool" where
  "noPersistence env =
     (case persistenceMode (getConfig env) of None \<Rightarrow> True | Some m \<Rightarrow> m = [] \<or> m = ''memory'')"

section \<open>The Faker generator\<close>

text \<open>
  \<open>faker.number.int({min, max})\<close>: the next draw of Faker, brought into the range.
\<close>

definition fakerIntBetween :: "env \<Rightarrow> nat \<Rightarrow> nat \<Rightarrow> nat \<Rightarrow> nat" where
  "fakerIntBetween env pos lo hi = lo + fakerDraw (rand env) pos mod (hi - lo + 1)"

type_synonym rnd = "nat \<times> nat"

text \<open>The test \<open>schema._meta.optional && Math.random() < 0.25\<close> and the state after it.\<close>

definition skipOptional :: "env \<Rightarrow> bool \<Rightarrow> rnd \<Rightarrow> bool \<times> rnd" where
  "skipOptional env opt st =
     (if opt then (randomLow (rand env) (fst st), (Suc (fst st), snd st)) else (False, st))"

text \<open>
  \<open>fieldName && fkValuePools && fkValuePools.has(fieldName)\<close>: the pool of a field, when
  the field has a name that is not empty and the pools hold one for it.
\<close>

definition poolFor :: "(string \<Rightarrow> jsval list option) \<Rightarrow> string option \<Rightarrow> jsval list option" where
  "poolFor pools fieldName =
     (case fieldName of None \<Rightarrow> None | Some n \<Rightarrow> if n = [] then None else pools n)"

text \<open>
  The leaves of \<open>generateSingleValue\<close>. A join is left \<open>null\<close>. A \<open>uuid\<close> whose field has
  a non-empty pool takes the pool's value at an index drawn between 0 and its length
  minus one; any other \<open>uuid\<close>, and every other schema type, is left to Faker.
\<close>

definition generateLeaf ::
    "env \<Rightarrow> (string \<Rightarrow> jsval list option) \<Rightarrow> string option \<Rightarrow> string \<Rightarrow> rnd \<Rightarrow> jsval \<times> rnd" where
  "generateLeaf env pools fieldName schemaType st =
     (if schemaType = ''join'' then (JNull, st)
      else if schemaType = ''uuid'' then
        (case poolFor pools fieldName of
           Some availableIds \<Rightarrow>
             if length availableIds > 0 then
               (availableIds ! fakerIntBetween env (snd st) 0 (length availableIds - 1),
                (fst st, Suc (snd st)))
             else (fakerLeaf (rand env) ''uuid'' (fakerDraw (rand env) (snd st)), (fst st, Suc (snd st)))
         | None \<Rightarrow> (fakerLeaf (rand env) ''uuid'' (fakerDraw (rand env) (snd st)), (fst st, Suc (snd st))))
      else (fakerLeaf (rand env) schemaType (fakerDraw (rand env) (snd st)), (fst st, Suc (snd st))))"

text \<open>
  \<open>generateSingleValue(schema, fkValuePools, fieldName)\<close>. The state is the pair of the
  positions in \<open>Math.random\<close> and in Faker. An object generates its fields in the order
  of its shape, each under its key as field name, and leaves out those that come out
  \<open>undefined\<close>; an array draws a length between 3 and 5 and generates its elements
  without a field name.
\<close>

function generateSingleValue ::
    "env \<Rightarrow> (string \<Rightarrow> jsval list option) \<Rightarrow> string option \<Rightarrow> schema \<Rightarrow> rnd \<Rightarrow> jsval \<times> rnd"
  and generateShape ::
    "env \<Rightarrow> (string \<Rightarrow> jsval list option) \<Rightarrow> (string \<times> schema) list \<Rightarrow> item \<Rightarrow> rnd \<Rightarrow> item \<times> rnd"
  and generateElements ::
    "env \<Rightarrow> (string \<Rightarrow> jsval list option) \<Rightarrow> nat \<Rightarrow> schema \<Rightarrow> rnd \<Rightarrow> jsval list \<times> rnd"
where
  "generateSingleValue env pools fieldName (SObject opt shape) st =
     (if fst (skipOptional env opt st) then (JUndefined, snd (skipOptional env opt st))
      else
        (case generateShape env pools shape [] (snd (skipOptional env opt st)) of
           (result, st') \<Rightarrow> (JObj result, st')))"
| "generateSingleValue env pools fieldName (SArray opt element) st =
     (if fst (skipOptional env opt st) then (JUndefined, snd (skipOptional env opt st))
      else
        (let st1 = snd (skipOptional env opt st);
             arrayLength = fakerIntBetween env (snd st1) 3 5
         in case generateElements env pools arrayLength element (fst st1, Suc (snd st1)) of
              (xs, st') \<Rightarrow> (JArr xs, st')))"
| "generateSingleValue env pools fieldName (SLeaf opt schemaType) st =
     (if fst (skipOptional env opt st) then (JUndefined, snd (skipOptional env opt st))
      else generateLeaf env pools fieldName schemaType (snd (skipOptional env opt st)))"
| "generateShape env pools [] result st = (result, st)"
| "generateShape env pools (kc # rest) result st =
     (case generateSingleValue env pools (Some (fst kc)) (snd kc) st of
        (v, st') \<Rightarrow>
          generateShape env pools rest
            (if v \<noteq> JUndefined then set_field (fst kc) v result else result) st')"
| "generateElements env pools 0 element st = ([], st)"
| "generateElements env pools (Suc n) element st =
     (case generateSingleValue env pools None element st of
        (v, st') \<Rightarrow>
          (case generateElements env pools n element st' of
             (vs, st'') \<Rightarrow> (v # vs, st'')))"
  by pat_completeness auto

termination
  by (relation "measures
        [\<lambda>x. case x of
            Inl (_, _, _, s, _) \<Rightarrow> 2 * size s
          | Inr (Inl (_, _, shape, _, _)) \<Rightarrow> 2 * size_list (size_prod (\<lambda>x. 0) size) shape + 1
          | Inr (Inr (_, _, _, element, _)) \<Rightarrow> 2 * size element + 1,
         \<lambda>x. case x of
            Inr (Inr (_, _, n, _, _)) \<Rightarrow> n
          | _ \<Rightarrow> 0]")
     auto

section \<open>Seeding a store\<close>

text \<open>\<open>new Date().toISOString()\<close> reads the clock.\<close>

definition readClock :: "env \<Rightarrow> world \<Rightarrow> jsval \<times> world" where
  "readClock env w = (JStr (clockISO (rand env) (ticks w)), w\<lparr>ticks := Suc (ticks w)\<rparr>)"

text \<open>
  \<open>generateId()\<close> is \<open>`${Date.now()}-${Math.random().toString(36).substr(2, 9)}`\<close>: one
  reading of the clock and one of \<open>Math.random\<close>, joined by a dash.
\<close>

definition generateId :: "env \<Rightarrow> world \<Rightarrow> jsval \<times> world" where
  "generateId env w =
     (JStr (clockMs (rand env) (ticks w) @ ''-'' @ randomText (rand env) (mathPos w)),
      w\<lparr>ticks := Suc (ticks w), mathPos := Suc (mathPos w)\<rparr>)"

text \<open>
  \<open>{...item, id: item.id || this.generateId(), createdAt: item.createdAt || now,
  updatedAt: now}\<close>, the expression that \<open>insert\<close> and both seed generators build their
  records with. \<open>generateId\<close> runs only when \<open>item.id\<close> is falsy.
\<close>

definition stampItem :: "env \<Rightarrow> item \<Rightarrow> jsval \<Rightarrow> world \<Rightarrow> item \<times> world" where
  "stampItem env it now w =
     (let idw = (if truthy (get_field it ''id'') then (get_field it ''id'', w) else generateId env w)
      in (set_field ''updatedAt'' now
            (set_field ''createdAt'' (js_or (get_field it ''createdAt'') now)
               (set_field ''id'' (fst idw) it)),
          snd idw))"

text \<open>Decimal text of an array index.\<close>

fun dec :: "nat \<Rightarrow> string" where
  "dec n = (if n < 10 then [char_of (48 + n)] else dec (n div 10) @ [char_of (48 + n mod 10)])"

declare dec.simps [simp del]

text \<open>
  The own enumerable properties that a spread copies: those of an object, the indices of
  an array or of a string, and none for any other value.
\<close>

definition ownProps :: "jsval \<Rightarrow> item" where
  "ownProps v =
     (case v of
        JObj kvs \<Rightarrow> kvs
      | JArr xs \<Rightarrow> zip (map dec [0..<length xs]) xs
      | JStr s \<Rightarrow> zip (map dec [0..<length s]) (map (\<lambda>c. JStr [c]) s)
      | _ \<Rightarrow> [])"

text \<open>
  The same expression for a generated value that need not be an object: reading
  \<open>item.id\<close> off \<open>undefined\<close> or \<open>null\<close> throws.
\<close>

definition stampValue :: "env \<Rightarrow> jsval \<Rightarrow> jsval \<Rightarrow> world \<Rightarrow> (error + item) \<times> world" where
  "stampValue env v now w =
     (if v = JUndefined \<or> v = JNull then (Inl TypeError, w)
      else (case stampItem env (ownProps v) now w of (it, w') \<Rightarrow> (Inr it, w')))"

text \<open>
  \<open>generateWithFaker(schema, 1, pools)\<close>: a configured seed restarts Faker's sequence,
  then one value is generated.
\<close>

definition generateWithFaker ::
    "env \<Rightarrow> schema \<Rightarrow> (string \<Rightarrow> jsval list option) \<Rightarrow> world \<Rightarrow> jsval \<times> world" where
  "generateWithFaker env sch pools w =
     (let f0 = (case fakerSeed (getConfig env) of Some _ \<Rightarrow> 0 | None \<Rightarrow> fakerPos w)
      in case generateSingleValue env pools None sch (mathPos w, f0) of
           (v, st) \<Rightarrow> (v, w\<lparr>mathPos := fst st, fakerPos := snd st\<rparr>))"

text \<open>The Faker branch of \<open>generateSeedData\<close>: \<open>Array.from({length: seedCount}, ...)\<close>.\<close>

fun fakerSeedData ::
    "env \<Rightarrow> schema \<Rightarrow> (string \<Rightarrow> jsval list option) \<Rightarrow> nat \<Rightarrow> world \<Rightarrow> (error + item list) \<times> world" where
  "fakerSeedData env sch pools 0 w = (Inr [], w)"
| "fakerSeedData env sch pools (Suc n) w =
     (case generateWithFaker env sch pools w of
        (v, w1) \<Rightarrow>
          (case readClock env w1 of
             (now, w2) \<Rightarrow>
               (case stampValue env v now w2 of
                  (Inl e, w3) \<Rightarrow> (Inl e, w3)
                | (Inr it, w3) \<Rightarrow>
                    (case fakerSeedData env sch pools n w3 of
                       (Inl e, w4) \<Rightarrow> (Inl e, w4)
                     | (Inr its, w4) \<Rightarrow> (Inr (it # its), w4)))))"

fun isArray :: "jsval \<Rightarrow> bool" where
  "isArray (JArr _) = True"
| "isArray _ = False"

fun elements :: "jsval \<Rightarrow> jsval list" where
  "elements (JArr xs) = xs"
| "elements _ = []"

text \<open>
  How \<open>generateSeedDataWithAI\<close> unwraps the provider's answer: an array as it is; of an
  object, the array under the collection's name, else the array under the first key that
  holds one (a key that is the empty string is falsy and does not count), else the object
  alone; any other value alone.
\<close>

definition unwrapGenerated :: "string \<Rightarrow> jsval \<Rightarrow> jsval list" where
  "unwrapGenerated name generatedData =
     (case generatedData of
        JArr xs \<Rightarrow> xs
      | JObj kvs \<Rightarrow>
          if truthy (get_field kvs name) \<and> isArray (get_field kvs name)
          then elements (get_field kvs name)
          else (case find (\<lambda>k. isArray (get_field kvs k)) (map fst kvs) of
                  Some arrayKey \<Rightarrow>
                    if arrayKey \<noteq> [] then elements (get_field kvs arrayKey) else [generatedData]
                | None \<Rightarrow> [generatedData])
      | _ \<Rightarrow> [generatedData])"

text \<open>\<open>dataArray.map(item => ({...item, id: ..., createdAt: ..., updatedAt: now}))\<close>\<close>

fun stampAll :: "env \<Rightarrow> jsval list \<Rightarrow> jsval \<Rightarrow> world \<Rightarrow> (error + item list) \<times> world" where
  "stampAll env [] now w = (Inr [], w)"
| "stampAll env (v # vs) now w =
     (case stampValue env v now w of
        (Inl e, w1) \<Rightarrow> (Inl e, w1)
      | (Inr it, w1) \<Rightarrow>
          (case stampAll env vs now w1 of
             (Inl e, w2) \<Rightarrow> (Inl e, w2)
           | (Inr its, w2) \<Rightarrow> (Inr (it # its), w2)))"

definition generateSeedDataWithAI :: "env \<Rightarrow> store \<Rightarrow> world \<Rightarrow> (error + item list) \<times> world" where
  "generateSeedDataWithAI env st w =
     (case generateWithAI (ext env) (collectionName st) of
        Inl e \<Rightarrow> (Inl e, w)
      | Inr generatedData \<Rightarrow>
          (case readClock env w of
             (now, w1) \<Rightarrow> stampAll env (unwrapGenerated (collectionName st) generatedData) now w1))"

text \<open>
  \<open>generateSeedData(availableRelationIds)\<close>. The mode is \<open>config.generateMode || 'faker'\<close>.
  In the modes \<open>ai\<close> and \<open>auto\<close> the AI provider is tried first; its failure is caught,
  and rethrown when the mode is \<open>ai\<close>. Nothing catches what the Faker branch throws.
\<close>

definition generateSeedData ::
    "env \<Rightarrow> store \<Rightarrow> (string \<Rightarrow> jsval list option) \<Rightarrow> world \<Rightarrow> (error + item list) \<times> world" where
  "generateSeedData env st pools w =
     (let mode = (case generateMode (getConfig env) of
                    None \<Rightarrow> ''faker''
                  | Some m \<Rightarrow> if m = [] then ''faker'' else m);
          shouldUseAI = (mode = ''ai'' \<or> mode = ''auto'')
      in
        if shouldUseAI then
          (case generateSeedDataWithAI env st w of
             (Inr aiData, w1) \<Rightarrow>
               if length aiData > 0 then (Inr aiData, w1)
               else fakerSeedData env (sschema st) pools (seedCount st) w1
           | (Inl e, w1) \<Rightarrow>
               if mode = ''ai'' then (Inl e, w1)
               else fakerSeedData env (sschema st) pools (seedCount st) w1)
        else fakerSeedData env (sschema st) pools (seedCount st) w)"

section \<open>Persistence\<close>

text \<open>
  \<open>loadFromPersistence\<close>: nothing without a persistence mode or in memory mode; in local
  mode the browser's storage or the file (whose own failure is caught and reads as
  nothing); in cloud mode the edge function. Every failure is caught and reads as
  nothing.
\<close>

definition loadFromPersistence :: "env \<Rightarrow> store \<Rightarrow> error + item list option" where
  "loadFromPersistence env st =
     (if noPersistence env then Inr None
      else
        tryCatch
          (if persistenceMode (getConfig env) = Some ''local'' then
             (if isBrowser env then loadFromLocalStorage (ext env) (collectionName st)
              else tryCatch (loadFromFile (ext env) (collectionName st)) (\<lambda>_. Inr None))
           else if persistenceMode (getConfig env) = Some ''cloud'' then
             loadFromEdgeFunction (ext env) (collectionName st)
           else Inr None)
          (\<lambda>_. Inr None))"

text \<open>\<open>persist\<close>, the bulk save: only the local mode writes, and every failure is caught.\<close>

definition persist :: "env \<Rightarrow> store \<Rightarrow> error + unit" where
  "persist env st =
     (if noPersistence env then Inr ()
      else
        tryCatch
          (if persistenceMode (getConfig env) = Some ''local'' then
             (if isBrowser env then saveToLocalStorage (ext env) (collectionName st) (mapValues (sdata st))
              else tryCatch (saveToFile (ext env) (collectionName st) (mapValues (sdata st)))
                     (\<lambda>_. Inr ()))
           else Inr ())
          (\<lambda>_. Inr ()))"

definition persistCreate :: "env \<Rightarrow> store \<Rightarrow> item \<Rightarrow> error + unit" where
  "persistCreate env st it =
     (if noPersistence env then Inr ()
      else
        tryCatch
          (if persistenceMode (getConfig env) = Some ''cloud'' then
             createInEdgeFunction (ext env) (collectionName st) it
           else if persistenceMode (getConfig env) = Some ''local'' then persist env st
           else Inr ())
          (\<lambda>_. Inr ()))"

definition persistUpdate :: "env \<Rightarrow> store \<Rightarrow> jsval \<Rightarrow> item \<Rightarrow> error + unit" where
  "persistUpdate env st ident updates =
     (if noPersistence env then Inr ()
      else
        tryCatch
          (if persistenceMode (getConfig env) = Some ''cloud'' then
             updateInEdgeFunction (ext env) (collectionName st) ident updates
           else if persistenceMode (getConfig env) = Some ''local'' then persist env st
           else Inr ())
          (\<lambda>_. Inr ()))"

section \<open>Initialization\<close>

text \<open>
  \<open>initializeWithFKIntegrity(fkValuePools)\<close> on the store at address \<open>a\<close>: nothing when it
  is initialized; else the seed data is generated, set into the map under each item's
  id, saved, and the store is marked initialized.
\<close>

definition initializeWithFKIntegrity ::
    "env \<Rightarrow> nat \<Rightarrow> (string \<Rightarrow> jsval list option) \<Rightarrow> world \<Rightarrow> (error + unit) \<times> world" where
  "initializeWithFKIntegrity env a pools w =
     (if initialized (heap w a) then (Inr (), w)
      else
        (case generateSeedData env (heap w a) pools w of
           (Inl e, w1) \<Rightarrow> (Inl e, w1)
         | (Inr seedData, w1) \<Rightarrow>
             (let st1 = (heap w1 a)\<lparr>sdata := setAll seedData (sdata (heap w1 a))\<rparr>
              in case persist env st1 of
                   Inl e \<Rightarrow> (Inl e, withStore a st1 w1)
                 | Inr _ \<Rightarrow> (Inr (), withStore a (st1\<lparr>initialized := True\<rparr>) w1))))"

text \<open>
  The pools of one collection: for each \<open>belongsTo\<close> relation whose target has a
  non-empty list among the ids recorded so far, the foreign-key field is mapped to that
  list.
\<close>

definition fkValuePools ::
    "(string \<times> relationConfig) list \<Rightarrow> (string \<Rightarrow> jsval list option) \<Rightarrow> (string \<Rightarrow> jsval list option)" where
  "fkValuePools rels availableIds =
     foldl (\<lambda>pools nr.
              if rtype (snd nr) = ''belongsTo'' then
                (case availableIds (collection (snd nr)) of
                   Some relatedIds \<Rightarrow>
                     if length relatedIds > 0 then pools(foreignKey (snd nr) \<mapsto> relatedIds)
                     else pools
                 | None \<Rightarrow> pools)
              else pools)
           Map.empty rels"

text \<open>
  The body of the loop of \<open>initializeAllCollections\<close> for one name of the seed order,
  with the ids recorded so far. A name without a registry entry, an entry without a
  store and a store that is already initialized are passed over, and nothing is
  recorded for them. Persisted data that is not empty is set into the map; else the
  store is seeded with the pools of its relations. Either way the store's ids are
  recorded under the name.
\<close>

definition seedOne ::
    "env \<Rightarrow> string \<Rightarrow> (string \<Rightarrow> jsval list option) \<Rightarrow> world
       \<Rightarrow> (error + (string \<Rightarrow> jsval list option)) \<times> world" where
  "seedOne env name availableIds w =
     (case map_of (registry env) name of
        None \<Rightarrow> (Inr availableIds, w)
      | Some md \<Rightarrow>
          (case mstore md of
             None \<Rightarrow> (Inr availableIds, w)
           | Some a \<Rightarrow>
               if initialized (heap w a) then (Inr availableIds, w)
               else
                 (case loadFromPersistence env (heap w a) of
                    Inl e \<Rightarrow> (Inl e, w)
                  | Inr persistedData \<Rightarrow>
                      if (case persistedData of None \<Rightarrow> False | Some xs \<Rightarrow> length xs > 0) then
                        (let st1 = (heap w a)\<lparr>
                               sdata := setAll (case persistedData of None \<Rightarrow> [] | Some xs \<Rightarrow> xs)
                                          (sdata (heap w a)),
                               initialized := True\<rparr>
                         in (Inr (availableIds(name \<mapsto> mapKeys (sdata st1))), withStore a st1 w))
                      else
                        (case initializeWithFKIntegrity env a
                                (fkValuePools (relations md) availableIds) w of
                           (Inl e, w1) \<Rightarrow> (Inl e, w1)
                         | (Inr _, w1) \<Rightarrow>
                             (Inr (availableIds(name \<mapsto> mapKeys (sdata (heap w1 a)))), w1)))))"

text \<open>The loop over the seed order; a throw ends it.\<close>

fun seedLoop ::
    "env \<Rightarrow> string list \<Rightarrow> (string \<Rightarrow> jsval list option) \<Rightarrow> world \<Rightarrow> (error + unit) \<times> world" where
  "seedLoop env [] availableIds w = (Inr (), w)"
| "seedLoop env (name # rest) availableIds w =
     (case seedOne env name availableIds w of
        (Inl e, w1) \<Rightarrow> (Inl e, w1)
      | (Inr availableIds1, w1) \<Rightarrow> seedLoop env rest availableIds1 w1)"

text \<open>
  \<open>DataStore.initializeAllCollections()\<close>: it returns at once when the flag is set; else
  it sets the flag, runs the loop, and clears the flag in \<open>finally\<close>, whether the loop
  ended or threw.
\<close>

definition initializeAllCollections :: "env \<Rightarrow> world \<Rightarrow> (error + unit) \<times> world" where
  "initializeAllCollections env w =
     (if isInitializingAll w then (Inr (), w)
      else
        (case seedLoop env (seedOrder env) Map.empty (w\<lparr>isInitializingAll := True\<rparr>) of
           (r, w1) \<Rightarrow> (r, w1\<lparr>isInitializingAll := False\<rparr>)))"

text \<open>
  \<open>initialize()\<close> on the store at address \<open>this\<close>: the coordinated pass, then the store's
  own seeding without pools when the pass left it uninitialized.
\<close>

definition initialize :: "env \<Rightarrow> nat \<Rightarrow> world \<Rightarrow> (error + unit) \<times> world" where
  "initialize env this w =
     (if initialized (heap w this) then (Inr (), w)
      else
        (case initializeAllCollections env w of
           (Inl e, w1) \<Rightarrow> (Inl e, w1)
         | (Inr _, w1) \<Rightarrow>
             if \<not> initialized (heap w1 this) then initializeWithFKIntegrity env this Map.empty w1
             else (Inr (), w1)))"

section \<open>CRUD operations of the store\<close>

text \<open>\<open>findById(id)\<close>: \<open>this.data.get(id) || null\<close>, after \<open>initialize()\<close>.\<close>

definition findById :: "env \<Rightarrow> nat \<Rightarrow> jsval \<Rightarrow> world \<Rightarrow> (error + item option) \<times> world" where
  "findById env this ident w =
     (case initialize env this w of
        (Inl e, w1) \<Rightarrow> (Inl e, w1)
      | (Inr _, w1) \<Rightarrow> (Inr (mapGet (sdata (heap w1 this)) ident), w1))"

definition insert_item :: "env \<Rightarrow> nat \<Rightarrow> item \<Rightarrow> world \<Rightarrow> (error + item) \<times> world" where
  "insert_item env this it w =
     (case initialize env this w of
        (Inl e, w1) \<Rightarrow> (Inl e, w1)
      | (Inr _, w1) \<Rightarrow>
          (case readClock env w1 of
             (now, w2) \<Rightarrow>
               (case stampItem env it now w2 of
                  (newItem, w3) \<Rightarrow>
                    (let st1 = (heap w3 this)\<lparr>
                           sdata := mapSet (get_field newItem ''id'') newItem (sdata (heap w3 this))\<rparr>
                     in case persistCreate env st1 newItem of
                          Inl e \<Rightarrow> (Inl e, withStore this st1 w3)
                        | Inr _ \<Rightarrow> (Inr newItem, withStore this st1 w3)))))"

text \<open>
  \<open>update(id, updates)\<close>: \<open>{...existing, ...updates, id, createdAt: existing.createdAt,
  updatedAt: new Date().toISOString()}\<close>, or \<open>null\<close> when the id is not in the map.
\<close>

definition update :: "env \<Rightarrow> nat \<Rightarrow> jsval \<Rightarrow> item \<Rightarrow> world \<Rightarrow> (error + item option) \<times> world" where
  "update env this ident updates w =
     (case initialize env this w of
        (Inl e, w1) \<Rightarrow> (Inl e, w1)
      | (Inr _, w1) \<Rightarrow>
          (case mapGet (sdata (heap w1 this)) ident of
             None \<Rightarrow> (Inr None, w1)
           | Some existing \<Rightarrow>
               (case readClock env w1 of
                  (now, w2) \<Rightarrow>
                    (let updated =
                           set_field ''updatedAt'' now
                             (set_field ''createdAt'' (get_field existing ''createdAt'')
                                (set_field ''id'' ident (spread existing updates)));
                         st1 = (heap w2 this)\<lparr>sdata := mapSet ident updated (sdata (heap w2 this))\<rparr>
                     in case persistUpdate env st1 ident updates of
                          Inl e \<Rightarrow> (Inl e, withStore this st1 w2)
                        | Inr _ \<Rightarrow> (Inr (Some updated), withStore this st1 w2)))))"

text \<open>\<open>replace(id, item)\<close>: as \<open>update\<close>, with the item in place of the merge.\<close>

definition replace :: "env \<Rightarrow> nat \<Rightarrow> jsval \<Rightarrow> item \<Rightarrow> world \<Rightarrow> (error + item option) \<times> world" where
  "replace env this ident it w =
     (case initialize env this w of
        (Inl e, w1) \<Rightarrow> (Inl e, w1)
      | (Inr _, w1) \<Rightarrow>
          (case mapGet (sdata (heap w1 this)) ident of
             None \<Rightarrow> (Inr None, w1)
           | Some existing \<Rightarrow>
               (case readClock env w1 of
                  (now, w2) \<Rightarrow>
                    (let replaced =
                           set_field ''updatedAt'' now
                             (set_field ''createdAt'' (get_field existing ''createdAt'')
                                (set_field ''id'' ident it));
                         st1 = (heap w2 this)\<lparr>sdata := mapSet ident replaced (sdata (heap w2 this))\<rparr>
                     in case persistUpdate env st1 ident replaced of
                          Inl e \<Rightarrow> (Inl e, withStore this st1 w2)
                        | Inr _ \<Rightarrow> (Inr (Some replaced), withStore this st1 w2)))))"

section \<open>Sorting and pagination\<close>

text \<open>The comparator of \<open>applySorting\<close>.\<close>

definition compareItems :: "host \<Rightarrow> string \<Rightarrow> string \<Rightarrow> item \<Rightarrow> item \<Rightarrow> int" where
  "compareItems h sortBy sortOrder a b =
     (let aValue = get_field a sortBy; bValue = get_field b sortBy in
      if strict_eq aValue bValue then 0
      else
        let comparison = (if js_gt h aValue bValue then 1 else - 1)
        in if sortOrder = ''asc'' then comparison else - comparison)"

text \<open>
  \<open>Array.prototype.sort\<close> is stable. It is modelled as the stable insertion sort: for a
  comparator that is a consistent order every stable sort gives the same list, and for
  any other comparator the language leaves the order to the engine.
\<close>

fun insertBy :: "('a \<Rightarrow> 'a \<Rightarrow> int) \<Rightarrow> 'a \<Rightarrow> 'a list \<Rightarrow> 'a list" where
  "insertBy cmp x [] = [x]"
| "insertBy cmp x (y # ys) = (if cmp x y \<le> 0 then x # y # ys else y # insertBy cmp x ys)"

definition stableSort :: "('a \<Rightarrow> 'a \<Rightarrow> int) \<Rightarrow> 'a list \<Rightarrow> 'a list" where
  "stableSort cmp xs = foldr (insertBy cmp) xs []"

definition applySorting :: "host \<Rightarrow> item list \<Rightarrow> string \<Rightarrow> string \<Rightarrow> item list" where
  "applySorting h items sortBy sortOrder = stableSort (compareItems h sortBy sortOrder) items"

text \<open>
  \<open>items.slice(start, end)\<close> for integers: a negative index counts from the end, and
  both ends are clamped to the list.
\<close>

definition relIndex :: "int \<Rightarrow> nat \<Rightarrow> nat" where
  "relIndex i len = (if i < 0 then nat (max (int len + i) 0) else min (nat i) len)"

definition slice :: "'a list \<Rightarrow> int \<Rightarrow> int \<Rightarrow> 'a list" where
  "slice xs start fin = take (relIndex fin (length xs) - relIndex start (length xs))
                          (drop (relIndex start (length xs)) xs)"

text \<open>
  The options of a query, with integral page and limit, and its default response.
  \<open>Math.ceil(total / limit)\<close> is written with integer division; the limit is never zero
  there.
\<close>

record queryOptions =
  page :: "int option"
  limit :: "int option"
  sortBy :: "string option"
  sortOrder :: "string option"
  filterBy :: "(string \<times> jsval) list option"

record pagination =
  pgPage :: int
  pgLimit :: int
  total :: int
  totalPages :: int

record queryResult =
  qdata :: "item list"
  qpagination :: pagination

definition orInt :: "int option \<Rightarrow> int \<Rightarrow> int" where
  "orInt x d = (case x of None \<Rightarrow> d | Some n \<Rightarrow> if n = 0 then d else n)"

definition orString :: "string option \<Rightarrow> string \<Rightarrow> string" where
  "orString x d = (case x of None \<Rightarrow> d | Some s \<Rightarrow> if s = [] then d else s)"

definition ceilDiv :: "int \<Rightarrow> int \<Rightarrow> int" where
  "ceilDiv a b = - ((- a) div b)"

text \<open>
  \<open>query(options)\<close> without a response schema, as the collection's \<open>list\<close> calls it:
  filter, then sort, then paginate.
\<close>

definition query :: "env \<Rightarrow> nat \<Rightarrow> queryOptions \<Rightarrow> world \<Rightarrow> (error + queryResult) \<times> world" where
  "query env this options w =
     (case initialize env this w of
        (Inl e, w1) \<Rightarrow> (Inl e, w1)
      | (Inr _, w1) \<Rightarrow>
          (case (case filterBy options of
                   None \<Rightarrow> Inr (mapValues (sdata (heap w1 this)))
                 | Some f \<Rightarrow> applyFilters (hostRt env) (mapValues (sdata (heap w1 this))) f) of
             Inl e \<Rightarrow> (Inl e, w1)
           | Inr filtered \<Rightarrow>
               (let items = (if orString (sortBy options) [] \<noteq> []
                             then applySorting (hostRt env) filtered (orString (sortBy options) [])
                                    (orString (sortOrder options) ''asc'')
                             else filtered);
                    pg = orInt (page options) 1;
                    lim = orInt (limit options) 20;
                    tot = int (length items);
                    startIndex = (pg - 1) * lim;
                    endIndex = startIndex + lim
                in (Inr \<lparr>qdata = slice items startIndex endIndex,
                         qpagination = \<lparr>pgPage = pg, pgLimit = lim, total = tot,
                                         totalPages = ceilDiv tot lim\<rparr>\<rparr>, w1))))"

text \<open>\<open>count(filter)\<close>\<close>

definition count :: "env \<Rightarrow> nat \<Rightarrow> (string \<times> jsval) list option \<Rightarrow> world \<Rightarrow> (error + nat) \<times> world" where
  "count env this f w =
     (case initialize env this w of
        (Inl e, w1) \<Rightarrow> (Inl e, w1)
      | (Inr _, w1) \<Rightarrow>
          (case f of
             None \<Rightarrow> (Inr (length (sdata (heap w1 this))), w1)
           | Some flt \<Rightarrow>
               (case applyFilters (hostRt env) (mapValues (sdata (heap w1 this))) flt of
                  Inl e \<Rightarrow> (Inl e, w1)
                | Inr filtered \<Rightarrow> (Inr (length filtered), w1))))"

section \<open>Response shaping of the collection's list operation\<close>

fun schemaType :: "schema \<Rightarrow> string" where
  "schemaType (SObject _ _) = ''object''"
| "schemaType (SArray _ _) = ''array''"
| "schemaType (SLeaf _ t) = t"

definition startsWith :: "string \<Rightarrow> string \<Rightarrow> bool" where
  "startsWith s p = prefix p s"

text \<open>\<open>s.split(':')\<close>\<close>

fun splitColon :: "string \<Rightarrow> string list" where
  "splitColon [] = [[]]"
| "splitColon (c # cs) =
     (if c = CHR '':'' then [] # splitColon cs
      else (case splitColon cs of [] \<Rightarrow> [[c]] | p # ps \<Rightarrow> (c # p) # ps))"

text \<open>
  \<open>schemaType.split(':')[1]\<close> as a property name; an index that is out of range reads
  as \<open>undefined\<close>, which names the property \<open>'undefined'\<close>.
\<close>

definition fieldNameOf :: "string \<Rightarrow> string" where
  "fieldNameOf t = (case splitColon t of _ # f # _ \<Rightarrow> f | _ \<Rightarrow> ''undefined'')"

text \<open>\<open>Number(v) || 0\<close>\<close>

definition numberOrZero :: "host \<Rightarrow> jsval \<Rightarrow> rat" where
  "numberOrZero h v = (case to_number h v of None \<Rightarrow> 0 | Some n \<Rightarrow> n)"

text \<open>\<open>data.map(item => Number(item[f])).filter(v => !isNaN(v))\<close>\<close>

definition numericValues :: "host \<Rightarrow> string \<Rightarrow> item list \<Rightarrow> rat list" where
  "numericValues h f data = List.map_filter (\<lambda>it. to_number h (get_field it f)) data"

text \<open>
  \<open>calculateMetaField(schemaType, data, pagination)\<close>. The aggregates reduce over the
  \<open>data\<close> they are given. \<open>JSON.parse\<close> belongs to the host and can throw.
\<close>

definition calculateMetaField ::
    "host \<Rightarrow> string \<Rightarrow> item list \<Rightarrow> pagination option \<Rightarrow> error + jsval" where
  "calculateMetaField h t data pg =
     (if t = ''collectionsMeta.total'' then
        Inr (JNum (of_int (orInt (map_option total pg) (int (length data)))))
      else if t = ''collectionsMeta.page'' then
        Inr (JNum (of_int (orInt (map_option pgPage pg) 1)))
      else if t = ''collectionsMeta.limit'' then
        Inr (JNum (of_int (orInt (map_option pgLimit pg) (int (length data)))))
      else if t = ''collectionsMeta.totalPages'' then
        Inr (JNum (of_int (orInt (map_option totalPages pg) 1)))
      else if startsWith t ''collectionsMeta.avg:'' then
        (let s = foldl (\<lambda>acc it. acc + numberOrZero h (get_field it (fieldNameOf t))) 0 data
         in Inr (JNum (if length data > 0 then s / of_nat (length data) else 0)))
      else if startsWith t ''collectionsMeta.sum:'' then
        Inr (JNum (foldl (\<lambda>acc it. acc + numberOrZero h (get_field it (fieldNameOf t))) 0 data))
      else if startsWith t ''collectionsMeta.min:'' then
        Inr (JNum (case numericValues h (fieldNameOf t) data of
                     [] \<Rightarrow> 0 | v # vs \<Rightarrow> foldl min v vs))
      else if startsWith t ''collectionsMeta.max:'' then
        Inr (JNum (case numericValues h (fieldNameOf t) data of
                     [] \<Rightarrow> 0 | v # vs \<Rightarrow> foldl max v vs))
      else if startsWith t ''collectionsMeta.count:'' then
        (case (case splitColon t of
                 _ # _ # p # _ \<Rightarrow> if p \<noteq> [] then jsonParse h p else Inr JNull
               | _ \<Rightarrow> Inr JNull) of
           Inl e \<Rightarrow> Inl e
         | Inr targetValue \<Rightarrow>
             Inr (JNum (of_nat (length
                    (filter (\<lambda>it. strict_eq (get_field it (fieldNameOf t)) targetValue) data)))))
      else Inr JNull)"

text \<open>\<open>projectResponse\<close> on a list of items: the fields of the schema that the item has.\<close>

definition projectItem :: "string list \<Rightarrow> item \<Rightarrow> item" where
  "projectItem fieldNames it =
     foldl (\<lambda>projected field.
              case map_of it field of
                Some v \<Rightarrow> set_field field v projected
              | None \<Rightarrow> projected)
           [] fieldNames"

definition projectResponse :: "item list \<Rightarrow> schema \<Rightarrow> item list" where
  "projectResponse data responseSchema =
     (case responseSchema of
        SObject _ shape \<Rightarrow> if shape = [] then data else map (projectItem (map fst shape)) data
      | _ \<Rightarrow> data)"

text \<open>
  \<open>buildField\<close> and the loop over a shape that \<open>buildNestedObject\<close> and
  \<open>buildResponseFromSchema\<close> share. \<open>sourceData\<close> is the one list that serves both the
  array fields and the aggregates. The relations of a normalized configuration are an
  object, which is truthy, so the joins of an array field are always resolved.
\<close>

function buildField ::
    "env \<Rightarrow> (string \<times> relationConfig) list \<Rightarrow> string \<Rightarrow> schema \<Rightarrow> item list \<Rightarrow> pagination option
       \<Rightarrow> error + jsval"
  and buildNestedObject ::
    "env \<Rightarrow> (string \<times> relationConfig) list \<Rightarrow> string \<Rightarrow> (string \<times> schema) list \<Rightarrow> item
       \<Rightarrow> item list \<Rightarrow> pagination option \<Rightarrow> error + item"
where
  "buildField env rels name (SArray opt elementSchema) sourceData pg =
     Inr (JArr (map JObj
            (projectResponse (resolveJoins env sourceData elementSchema rels name) elementSchema)))"
| "buildField env rels name (SObject opt shape) sourceData pg =
     (case buildNestedObject env rels name shape [] sourceData pg of
        Inl e \<Rightarrow> Inl e
      | Inr obj \<Rightarrow> Inr (JObj obj))"
| "buildField env rels name (SLeaf opt t) sourceData pg =
     (if startsWith t ''collectionsMeta.'' then calculateMetaField (hostRt env) t sourceData pg
      else Inr JNull)"
| "buildNestedObject env rels name [] obj sourceData pg = Inr obj"
| "buildNestedObject env rels name (kf # rest) obj sourceData pg =
     (case buildField env rels name (snd kf) sourceData pg of
        Inl e \<Rightarrow> Inl e
      | Inr v \<Rightarrow> buildNestedObject env rels name rest (set_field (fst kf) v obj) sourceData pg)"
  by pat_completeness auto

termination
  by (relation "measure
        (\<lambda>x. case x of
            Inl (_, _, _, s, _, _) \<Rightarrow> 2 * size s
          | Inr (_, _, _, shape, _, _, _) \<Rightarrow> 2 * size_list (size_prod (\<lambda>x. 0) size) shape + 1)")
     auto

datatype listResult = Plain queryResult | Envelope item

text \<open>
  \<open>buildResponseFromSchema(result, schema, collectionConfig)\<close>: the source data is
  \<open>result.data\<close>, the page that the query returned.
\<close>

definition buildResponseFromSchema ::
    "env \<Rightarrow> (string \<times> relationConfig) list \<Rightarrow> string \<Rightarrow> queryResult \<Rightarrow> schema \<Rightarrow> error + listResult" where
  "buildResponseFromSchema env rels name result sch =
     (case sch of
        SObject _ schemaShape \<Rightarrow>
          (case buildNestedObject env rels name schemaShape [] (qdata result)
                  (Some (qpagination result)) of
             Inl e \<Rightarrow> Inl e
           | Inr response \<Rightarrow> Inr (Envelope response))
      | _ \<Rightarrow> Inr (Plain result))"

definition isResponseEnvelope :: "(string \<times> schema) list \<Rightarrow> bool" where
  "isResponseEnvelope schemaShape =
     list_ex (\<lambda>s. startsWith (schemaType s) ''collectionsMeta.'' \<or> schemaType s = ''array'')
       (map snd schemaShape)"

text \<open>
  The \<open>list\<close> operation of a collection in development, with memory or local
  persistence, no simulated error and no delay: the store's query, then the response
  schema when there is one.
\<close>

definition collection_list ::
    "env \<Rightarrow> nat \<Rightarrow> (string \<times> relationConfig) list \<Rightarrow> string \<Rightarrow> schema option \<Rightarrow> queryOptions \<Rightarrow> world
       \<Rightarrow> (error + listResult) \<times> world" where
  "collection_list env this rels name responseSchema options w =
     (case query env this options w of
        (Inl e, w1) \<Rightarrow> (Inl e, w1)
      | (Inr result, w1) \<Rightarrow>
          (case responseSchema of
             Some (SObject opt schemaShape) \<Rightarrow>
               if isResponseEnvelope schemaShape then
                 (buildResponseFromSchema env rels name result (SObject opt schemaShape), w1)
               else
                 (Inr (Plain (result\<lparr>qdata :=
                    projectResponse
                      (resolveJoins env (qdata result) (SObject opt schemaShape) rels name)
                      (SObject opt schemaShape)\<rparr>)), w1)
           | _ \<Rightarrow> (Inr (Plain result), w1)))"

section \<open>Concrete inputs\<close>

text \<open>A host that reads no string as a number; the examples below compare numbers only.\<close>

definition host0 :: host where
  "host0 = \<lparr>stringToNumber = (\<lambda>_. None), objectToPrimitive = (\<lambda>_. JUndefined),
            valueToString = (\<lambda>_. []), jsonParse = (\<lambda>_. Inl SyntaxError)\<rparr>"

definition books :: "item list" where
  "books = [[(''title'', JStr ''A''), (''price'', JNum 12), (''category'', JStr ''books'')],
            [(''title'', JStr ''B''), (''price'', JNum 7), (''category'', JStr ''toys'')]]"

text \<open>
  A clock that reads the same instant at every reading, as for calls within one
  millisecond, a \<open>Math.random\<close> that never falls below 0.25, and a Faker whose n-th draw
  is n and whose leaves are the schema type followed by the draw.
\<close>

definition rand0 :: entropy where
  "rand0 = \<lparr>clockISO = (\<lambda>_. ''2026-01-01T00:00:00.000Z''), clockMs = (\<lambda>_. ''1767225600000''),
            randomLow = (\<lambda>_. False), randomText = (\<lambda>n. dec n),
            fakerDraw = (\<lambda>n. n), fakerLeaf = (\<lambda>t n. JStr (t @ ''-'' @ dec n))\<rparr>"

text \<open>Backends that hold nothing and save without failure, and backends that all fail.\<close>

definition ext0 :: backends where
  "ext0 = \<lparr>generateWithAI = (\<lambda>_. Inl GenerationFailure),
           loadFromLocalStorage = (\<lambda>_. Inr None), loadFromFile = (\<lambda>_. Inr None),
           loadFromEdgeFunction = (\<lambda>_. Inr None),
           saveToLocalStorage = (\<lambda>_ _. Inr ()), saveToFile = (\<lambda>_ _. Inr ()),
           createInEdgeFunction = (\<lambda>_ _. Inr ()), updateInEdgeFunction = (\<lambda>_ _ _. Inr ()),
           deleteFromEdgeFunction = (\<lambda>_ _. Inr ())\<rparr>"


definition configOf :: "string \<Rightarrow> string \<Rightarrow> config" where
  "configOf g p = \<lparr>generateMode = Some g, persistenceMode = Some p, fakerSeed = None\<rparr>"

definition env0 :: env where
  "env0 = \<lparr>hostRt = host0, getConfig = configOf ''faker'' ''memory'',
           registry = [], seedOrder = [], isBrowser = False, rand = rand0, ext = ext0,
           resolveJoins = (\<lambda>items _ _ _. items)\<rparr>"

definition product :: "string \<Rightarrow> rat \<Rightarrow> item" where
  "product i p = [(''id'', JStr i), (''price'', JNum p),
                  (''createdAt'', JStr ''2025-12-31T00:00:00.000Z''),
                  (''updatedAt'', JStr ''2025-12-31T00:00:00.000Z'')]"

definition productSchema :: schema where
  "productSchema = SObject False [(''id'', SLeaf False ''uuid''), (''price'', SLeaf False ''number''),
      (''createdAt'', SLeaf False ''date''), (''updatedAt'', SLeaf False ''date'')]"

definition products :: store where
  "products = \<lparr>sdata = [(JStr ''a'', product ''a'' 10), (JStr ''b'', product ''b'' 20),
                         (JStr ''c'', product ''c'' 30)],
               sschema = productSchema, collectionName = ''products'', seedCount = 3,
               seedInstruction = [], initialized = True\<rparr>"

definition emptyStore :: "string \<Rightarrow> schema \<Rightarrow> nat \<Rightarrow> store" where
  "emptyStore n s c = \<lparr>sdata = [], sschema = s, collectionName = n, seedCount = c,
                       seedInstruction = [], initialized = False\<rparr>"

text \<open>Address 0 holds the initialized products; every other address a new store.\<close>

definition world0 :: world where
  "world0 = \<lparr>isInitializingAll = False,
             heap = (\<lambda>a. if a = 0 then products else emptyStore ''drafts'' productSchema 2),
             ticks = 0, mathPos = 0, fakerPos = 0\<rparr>"

definition statsSchema :: schema where
  "statsSchema = SObject False
     [(''items'', SArray False productSchema),
      (''avgPrice'', SLeaf False ''collectionsMeta.avg:price''),
      (''sumPrice'', SLeaf False ''collectionsMeta.sum:price''),
      (''minPrice'', SLeaf False ''collectionsMeta.min:price''),
      (''maxPrice'', SLeaf False ''collectionsMeta.max:price'')]"

definition pageOf :: "int \<Rightarrow> int \<Rightarrow> queryOptions" where
  "pageOf p l = \<lparr>page = Some p, limit = Some l, sortBy = None, sortOrder = None, filterBy = None\<rparr>"

definition metaOf :: "(error + listResult) \<times> world \<Rightarrow> string \<Rightarrow> jsval" where
  "metaOf r k = (case fst r of Inr (Envelope e) \<Rightarrow> get_field e k | _ \<Rightarrow> JUndefined)"

definition envStrict :: env where
  "envStrict = env0\<lparr>getConfig := configOf ''ai'' ''memory'',
      registry := [(''drafts'', \<lparr>relations = [], mstore = Some 1\<rparr>)], seedOrder := [''drafts'']\<rparr>"



definition optsW :: "int \<Rightarrow> queryOptions" where
  "optsW p = \<lparr>page = Some p, limit = Some 1, sortBy = Some ''price'', sortOrder = Some ''desc'',
              filterBy = Some [(''price'', JObj [(''$gte'', JNum 15)])]\<rparr>"

definition intruder :: item where
  "intruder = [(''id'', JStr ''zzz''), (''createdAt'', JStr ''1999-01-01T00:00:00.000Z''),
               (''price'', JNum 1)]"

definition resultItem :: "(error + item option) \<times> world \<Rightarrow> item" where
  "resultItem r = (case fst r of Inr (Some it) \<Rightarrow> it | _ \<Rightarrow> [])"

definition dated :: item where
  "dated = [(''id'', JStr ''z''), (''price'', JNum 5),
            (''updatedAt'', JStr ''2020-01-01T00:00:00.000Z'')]"

definition insertedItem :: "(error + item) \<times> world \<Rightarrow> item" where
  "insertedItem r = (case fst r of Inr it \<Rightarrow> it | Inl _ \<Rightarrow> [])"


definition orderSchema :: schema where
  "orderSchema = SObject False [(''id'', SLeaf False ''uuid''), (''userId'', SLeaf False ''uuid''),
                                (''total'', SLeaf False ''number'')]"

definition belongsToUser :: relationConfig where
  "belongsToUser = \<lparr>rtype = ''belongsTo'', collection = ''users'', foreignKey = ''userId''\<rparr>"

text \<open>Orders belong to users; users are seeded first. Stores: users at 2, orders at 3.\<close>

definition envFK :: env where
  "envFK = env0\<lparr>registry := [(''users'', \<lparr>relations = [], mstore = Some 2\<rparr>),
                               (''orders'', \<lparr>relations = [(''user'', belongsToUser)], mstore = Some 3\<rparr>)],
                  seedOrder := [''users'', ''orders'']\<rparr>"


text \<open>The same, with the users' store initialized before the pass.\<close>

definition worldLate :: world where
  "worldLate = \<lparr>isInitializingAll = False,
                heap = (\<lambda>a. if a = 3 then emptyStore ''orders'' orderSchema 2 else products),
                ticks = 0, mathPos = 0, fakerPos = 0\<rparr>"

definition fieldValues :: "string \<Rightarrow> store \<Rightarrow> jsval list" where
  "fieldValues F st = map (\<lambda>r. get_field r F) (mapValues (sdata st))"

section \<open>Properties of applyFilters\<close>

lemma everyEntry_and:
  "(\<forall>e \<in> set f. \<exists>b. matchEntry h it e = Inr b) \<Longrightarrow>
   everyEntry h it f = Inr (\<forall>e \<in> set f. matchEntry h it e = Inr True)"
  by (induction f) auto

lemma applyFilters_filter:
  "(\<forall>it \<in> set its. \<exists>b. everyEntry h it f = Inr b) \<Longrightarrow>
   applyFilters h its f = Inr (filter (\<lambda>it. everyEntry h it f = Inr True) its)"
  by (induction its) auto

lemma applyFilters_and:
  assumes "\<forall>it \<in> set its. \<forall>e \<in> set f. \<exists>b. matchEntry h it e = Inr b"
  shows "applyFilters h its f = Inr (filter (\<lambda>it. \<forall>e \<in> set f. matchEntry h it e = Inr True) its)"
proof -
  have ev: "\<forall>it \<in> set its. everyEntry h it f = Inr (\<forall>e \<in> set f. matchEntry h it e = Inr True)"
    using assms everyEntry_and by blast
  then have "applyFilters h its f = Inr (filter (\<lambda>it. everyEntry h it f = Inr True) its)"
    by (intro applyFilters_filter) auto
  moreover have "filter (\<lambda>it. everyEntry h it f = Inr True) its
      = filter (\<lambda>it. \<forall>e \<in> set f. matchEntry h it e = Inr True) its"
    by (rule filter_cong) (use ev in auto)
  ultimately show ?thesis by simp
qed

lemma matchEntry_unknown:
  "(\<forall>op \<in> set supportedOps. opOf (JObj ops) op = JUndefined) \<Longrightarrow> matchEntry h it (k, JObj ops) = Inr True"
  by (simp add: matchEntry_def supportedOps_def typeof_object_def)

text \<open>
  Claim C4, as amended. An entry whose value is \<open>undefined\<close> is skipped: it matches
  every record. An entry whose value is a string, a number or a boolean matches a record
  exactly when \<open>record[field] === value\<close>. An operator object is evaluated with
  \<open>$eq\<close>, \<open>$ne\<close>, \<open>$gt\<close>, \<open>$gte\<close>, \<open>$lt\<close>, \<open>$lte\<close>, \<open>$in\<close> (membership in an array) and
  \<open>$nin\<close> (non-membership). An operator object none of whose keys is a supported
  operator matches every record. When no entry throws, the entries of a filter are
  conjoined: \<open>applyFilters\<close> keeps exactly the items that match every entry.
\<close>

theorem filter_entry_semantics:
  "matchEntry h it (k, JUndefined) = Inr True
   \<and> (\<not> typeof_object v \<and> v \<noteq> JUndefined \<longrightarrow>
        matchEntry h it (k, v) = Inr (strict_eq (get_field it k) v))
   \<and> (v \<noteq> JUndefined \<longrightarrow>
        matchEntry h it (k, JObj [(''$eq'', v)]) = Inr (strict_eq (get_field it k) v)
      \<and> matchEntry h it (k, JObj [(''$ne'', v)]) = Inr (\<not> strict_eq (get_field it k) v)
      \<and> matchEntry h it (k, JObj [(''$gt'', v)]) = Inr (js_gt h (get_field it k) v)
      \<and> matchEntry h it (k, JObj [(''$gte'', v)]) = Inr (js_ge h (get_field it k) v)
      \<and> matchEntry h it (k, JObj [(''$lt'', v)]) = Inr (js_lt h (get_field it k) v)
      \<and> matchEntry h it (k, JObj [(''$lte'', v)]) = Inr (js_le h (get_field it k) v))
   \<and> matchEntry h it (k, JObj [(''$in'', JArr xs)]) = Inr (list_ex (strict_eq (get_field it k)) xs)
   \<and> matchEntry h it (k, JObj [(''$nin'', JArr xs)]) = Inr (\<not> list_ex (strict_eq (get_field it k)) xs)
   \<and> ((\<forall>op \<in> set supportedOps. opOf (JObj ops) op = JUndefined) \<longrightarrow>
        matchEntry h it (k, JObj ops) = Inr True)
   \<and> ((\<forall>it \<in> set its. \<forall>e \<in> set f. \<exists>b. matchEntry h it e = Inr b) \<longrightarrow>
        applyFilters h its f =
          Inr (filter (\<lambda>it. \<forall>e \<in> set f. matchEntry h it e = Inr True) its))"
proof -
  have a: "matchEntry h it (k, JUndefined) = Inr True"
    by (simp add: matchEntry_def)
  have b: "\<not> typeof_object v \<and> v \<noteq> JUndefined \<longrightarrow>
        matchEntry h it (k, v) = Inr (strict_eq (get_field it k) v)"
    by (simp add: matchEntry_def)
  have c: "v \<noteq> JUndefined \<longrightarrow>
        matchEntry h it (k, JObj [(''$eq'', v)]) = Inr (strict_eq (get_field it k) v)
      \<and> matchEntry h it (k, JObj [(''$ne'', v)]) = Inr (\<not> strict_eq (get_field it k) v)
      \<and> matchEntry h it (k, JObj [(''$gt'', v)]) = Inr (js_gt h (get_field it k) v)
      \<and> matchEntry h it (k, JObj [(''$gte'', v)]) = Inr (js_ge h (get_field it k) v)
      \<and> matchEntry h it (k, JObj [(''$lt'', v)]) = Inr (js_lt h (get_field it k) v)
      \<and> matchEntry h it (k, JObj [(''$lte'', v)]) = Inr (js_le h (get_field it k) v)"
    by (simp add: matchEntry_def typeof_object_def opOf_def get_field_def)
  have d: "matchEntry h it (k, JObj [(''$in'', JArr xs)]) = Inr (list_ex (strict_eq (get_field it k)) xs)"
    "matchEntry h it (k, JObj [(''$nin'', JArr xs)]) = Inr (\<not> list_ex (strict_eq (get_field it k)) xs)"
    by (simp_all add: matchEntry_def typeof_object_def opOf_def get_field_def js_includes_def)
  show ?thesis
    using a b c d matchEntry_unknown [of ops h it k] applyFilters_and [of its f h]
    by blast
qed

theorem filter_entry_semantics_witness:
  "\<not> typeof_object (JNum 12) \<and> JNum 12 \<noteq> JUndefined
   \<and> matchEntry host0 (hd books) (''price'', JNum 12) = Inr True
   \<and> matchEntry host0 (hd books) (''price'', JObj [(''$regex'', JStr ''x'')]) = Inr True
   \<and> applyFilters host0 books [(''category'', JStr ''books''), (''price'', JObj [(''$gte'', JNum 10)])]
       = Inr [hd books]"
  using filter_entry_semantics [of host0 "hd books" "''price''" "JNum 12" "[]" "[(''$regex'', JStr ''x'')]"
      books "[(''category'', JStr ''books''), (''price'', JObj [(''$gte'', JNum 10)])]"]
  by (auto simp add: books_def host0_def supportedOps_def opOf_def get_field_def typeof_object_def
      strict_eq_def matchEntry_def js_ge_def js_lt3_def to_primitive_def js_includes_def)

text \<open>
  Claim C4 as stated fails for an entry whose value is \<open>undefined\<close>: it is not an
  operator object, and the record's category is not \<open>undefined\<close>, yet the entry
  matches.
\<close>

theorem filter_undefined_counterexample:
  "matchEntry host0 [(''category'', JStr ''books'')] (''category'', JUndefined) = Inr True
   \<and> \<not> strict_eq (get_field [(''category'', JStr ''books'')] ''category'') JUndefined"
  by (simp add: matchEntry_def strict_eq_def get_field_def)

text \<open>
  Claim C10. For an operator object, the match is decided by the first operator
  present in the order \<open>$eq\<close>, \<open>$ne\<close>, \<open>$gt\<close>, \<open>$gte\<close>, \<open>$lt\<close>, \<open>$lte\<close>, \<open>$in\<close>, \<open>$nin\<close>; the
  other keys of the object are not read. So \<open>{price: {$gt: 10, $lt: 5}}\<close> matches
  exactly the records with \<open>price > 10\<close>.
\<close>

theorem first_operator_decides:
  "matchEntry h it (k, JObj ops) =
     (case find (\<lambda>op. opOf (JObj ops) op \<noteq> JUndefined) supportedOps of
        None \<Rightarrow> Inr True
      | Some op \<Rightarrow> operatorMeaning h op (get_field it k) (opOf (JObj ops) op))
   \<and> matchEntry h it (''price'', JObj [(''$gt'', JNum 10), (''$lt'', JNum 5)]) =
       Inr (js_gt h (get_field it ''price'') (JNum 10))"
  by (simp add: matchEntry_def supportedOps_def operatorMeaning_def typeof_object_def opOf_def get_field_def)

theorem first_operator_decides_witness:
  "matchEntry host0 [(''price'', JNum 12)] (''price'', JObj [(''$gt'', JNum 10), (''$lt'', JNum 5)]) = Inr True
   \<and> js_gt host0 (JNum 12) (JNum 10) \<and> \<not> js_lt host0 (JNum 12) (JNum 5)"
  using first_operator_decides [of host0 "[(''price'', JNum 12)]" "''price''" "[(''$gt'', JNum 10), (''$lt'', JNum 5)]"]
  by (simp add: get_field_def js_gt_def js_lt_def js_lt3_def to_primitive_def host0_def
      supportedOps_def operatorMeaning_def opOf_def)

section \<open>Properties of the list operation\<close>

text \<open>
  Claim C2 at a concrete input: three products with prices 10, 20 and 30, listed
  through a response envelope with aggregate fields. With page 1 and limit 2 the
  response has \<open>avg:price\<close> 15, \<open>sum:price\<close> 30, \<open>min:price\<close> 10 and \<open>max:price\<close> 20, and
  with page 2 it has \<open>avg:price\<close> 30: the aggregates are those of the page that the
  query returned. Only a page that holds every record gives the values of the full
  dataset.
\<close>

theorem list_aggregates_follow_page:
  "metaOf (collection_list env0 0 [] ''products'' (Some statsSchema) (pageOf 1 2) world0) ''avgPrice'' = JNum 15
   \<and> metaOf (collection_list env0 0 [] ''products'' (Some statsSchema) (pageOf 1 2) world0) ''sumPrice'' = JNum 30
   \<and> metaOf (collection_list env0 0 [] ''products'' (Some statsSchema) (pageOf 1 2) world0) ''minPrice'' = JNum 10
   \<and> metaOf (collection_list env0 0 [] ''products'' (Some statsSchema) (pageOf 1 2) world0) ''maxPrice'' = JNum 20
   \<and> metaOf (collection_list env0 0 [] ''products'' (Some statsSchema) (pageOf 2 2) world0) ''avgPrice'' = JNum 30
   \<and> metaOf (collection_list env0 0 [] ''products'' (Some statsSchema) (pageOf 1 20) world0) ''avgPrice'' = JNum 20"
  by code_simp

section \<open>Properties of initialization and of failures\<close>

text \<open>
  Claim C9. A call of \<open>initializeAllCollections\<close> that finds the flag set returns at
  once and leaves the whole state as it is, the record sets of all stores included. A
  call that finds the flag clear leaves it clear on exit, whether the pass ended or
  threw.
\<close>

theorem initializeAll_reentrancy:
  "(isInitializingAll w \<longrightarrow> initializeAllCollections env w = (Inr (), w))
   \<and> (\<not> isInitializingAll w \<longrightarrow> \<not> isInitializingAll (snd (initializeAllCollections env w)))"
  by (simp add: initializeAllCollections_def split: prod.splits)

lemma strict_pass_fails:
  "fst (initializeAllCollections envStrict world0) = Inl GenerationFailure"
  by code_simp

theorem initializeAll_reentrancy_witness:
  "isInitializingAll (world0\<lparr>isInitializingAll := True\<rparr>)
   \<and> initializeAllCollections env0 (world0\<lparr>isInitializingAll := True\<rparr>)
       = (Inr (), world0\<lparr>isInitializingAll := True\<rparr>)
   \<and> \<not> isInitializingAll world0
   \<and> fst (initializeAllCollections envStrict world0) = Inl GenerationFailure
   \<and> \<not> isInitializingAll (snd (initializeAllCollections envStrict world0))"
  using initializeAll_reentrancy [of "world0\<lparr>isInitializingAll := True\<rparr>" env0]
    initializeAll_reentrancy [of world0 envStrict] strict_pass_fails
  by (simp add: world0_def)


lemma tryCatch_unit: "tryCatch body (\<lambda>_. Inr ()) = Inr ()"
  by (cases body) (simp_all add: tryCatch_def)


lemma persist_unit: "persist env st = Inr ()"
  unfolding persist_def by (simp add: tryCatch_unit)

lemma persistCreate_unit: "persistCreate env st it = Inr ()"
  unfolding persistCreate_def by (simp add: tryCatch_unit)

lemma persistUpdate_unit: "persistUpdate env st ident upd = Inr ()"
  unfolding persistUpdate_def by (simp add: tryCatch_unit)

lemma initialize_done: "initialized (heap w this) \<Longrightarrow> initialize env this w = (Inr (), w)"
  by (simp add: initialize_def)

lemma insert_item_returns:
  "initialized (heap w this) \<Longrightarrow> \<exists>r w'. insert_item env this it w = (Inr r, w')"
  by (simp add: insert_item_def initialize_done persistCreate_unit Let_def split: prod.splits)








section \<open>Properties of query\<close>

lemma get_set_field [simp]:
  "get_field (set_field k v r) k' = (if k' = k then v else get_field r k')"
  by (simp add: get_field_def set_field_def update_conv')

lemma spread_Nil [simp]: "spread a [] = a"
  by (simp add: spread_def)

lemma mapGet_mapSet [simp]:
  "mapGet (mapSet k v m) k' = (if k' = k then Some v else mapGet m k')"
  by (simp add: mapGet_def mapSet_def update_conv')

lemma heap_withStore [simp]: "heap (withStore a st w) b = (if b = a then st else heap w b)"
  by (simp add: withStore_def)

lemma readClock_eq:
  "readClock env w = (JStr (clockISO (rand env) (ticks w)), w\<lparr>ticks := Suc (ticks w)\<rparr>)"
  by (simp add: readClock_def)

lemma slice_page:
  assumes "0 \<le> s" "1 \<le> l"
  shows "slice xs s (s + l) = take (nat l) (drop (nat s) xs)"
proof (cases "nat s < length xs")
  case True
  then show ?thesis using assms
    by (auto simp: slice_def relIndex_def min_def nat_add_distrib)
next
  case False
  then show ?thesis using assms
    by (simp add: slice_def relIndex_def min_def)
qed

lemma ceilDiv_ceiling: "ceilDiv a b = \<lceil>real_of_int a / real_of_int b\<rceil>"
  by (simp add: ceilDiv_def ceiling_divide_eq_div)

text \<open>
  Claim C3. On an initialized store, with the page and the limit at least 1 after their
  defaults (1 for the page, 20 for the limit, which also stand in for 0), and a filter
  that does not throw: the result is the filtered list, then sorted, then cut to the
  \<open>limit\<close> items from index \<open>(page - 1) * limit\<close>; \<open>total\<close> counts the filtered items and
  \<open>totalPages\<close> is the ceiling of \<open>total / limit\<close>; the state is unchanged; and a page
  beyond the last one gives the empty list.
\<close>

theorem query_pipeline:
  assumes init: "initialized (heap w this)"
    and pg: "pg = (case page options of None \<Rightarrow> 1 | Some p \<Rightarrow> if p = 0 then 1 else p)"
    and lim: "lm = (case limit options of None \<Rightarrow> 20 | Some l \<Rightarrow> if l = 0 then 20 else l)"
    and range: "1 \<le> pg" "1 \<le> lm"
    and flt: "(case filterBy options of
                 None \<Rightarrow> Inr (mapValues (sdata (heap w this)))
               | Some f \<Rightarrow> applyFilters (hostRt env) (mapValues (sdata (heap w this))) f) = Inr filtered"
    and srt: "ordered = (case sortBy options of
                 None \<Rightarrow> filtered
               | Some k \<Rightarrow> if k = [] then filtered
                           else applySorting (hostRt env) filtered k
                                  (case sortOrder options of None \<Rightarrow> ''asc''
                                   | Some d \<Rightarrow> if d = [] then ''asc'' else d))"
  shows "query env this options w =
           (Inr \<lparr>qdata = take (nat lm) (drop (nat ((pg - 1) * lm)) ordered),
                 qpagination = \<lparr>pgPage = pg, pgLimit = lm, total = int (length ordered),
                   totalPages = \<lceil>real (length ordered) / real_of_int lm\<rceil>\<rparr>\<rparr>, w)
         \<and> (int (length ordered) \<le> (pg - 1) * lm \<longrightarrow>
              take (nat lm) (drop (nat ((pg - 1) * lm)) ordered) = [])"
proof -
  have pg': "orInt (page options) 1 = pg" and lm': "orInt (limit options) 20 = lm"
    using pg lim by (simp_all add: orInt_def)
  have srt': "(if orString (sortBy options) [] \<noteq> []
               then applySorting (hostRt env) filtered (orString (sortBy options) [])
                      (orString (sortOrder options) ''asc'')
               else filtered) = ordered"
    using srt by (simp add: orString_def split: option.splits)
  have s0: "0 \<le> (pg - 1) * lm" using range by simp
  have sl: "slice ordered ((pg - 1) * lm) ((pg - 1) * lm + lm)
              = take (nat lm) (drop (nat ((pg - 1) * lm)) ordered)"
    using slice_page [OF s0 range(2)] .
  have cd: "ceilDiv (int (length ordered)) lm = \<lceil>real (length ordered) / real_of_int lm\<rceil>"
    by (simp add: ceilDiv_ceiling)
  have "query env this options w =
           (Inr \<lparr>qdata = take (nat lm) (drop (nat ((pg - 1) * lm)) ordered),
                 qpagination = \<lparr>pgPage = pg, pgLimit = lm, total = int (length ordered),
                   totalPages = \<lceil>real (length ordered) / real_of_int lm\<rceil>\<rparr>\<rparr>, w)"
    unfolding query_def
    by (simp add: initialize_done [OF init] flt pg' lm' srt' sl cd Let_def)
  moreover have "int (length ordered) \<le> (pg - 1) * lm \<longrightarrow>
              take (nat lm) (drop (nat ((pg - 1) * lm)) ordered) = []"
    by auto
  ultimately show ?thesis by simp
qed

theorem query_pipeline_witness:
  "query env0 0 (optsW 1) world0 =
     (Inr \<lparr>qdata = [product ''c'' 30],
           qpagination = \<lparr>pgPage = 1, pgLimit = 1, total = 2, totalPages = 2\<rparr>\<rparr>, world0)
   \<and> query env0 0 (optsW 3) world0 =
     (Inr \<lparr>qdata = [],
           qpagination = \<lparr>pgPage = 3, pgLimit = 1, total = 2, totalPages = 2\<rparr>\<rparr>, world0)"
proof -
  have i: "initialized (heap world0 0)"
    by (simp add: world0_def products_def)
  have f: "(case filterBy (optsW p) of
              None \<Rightarrow> Inr (mapValues (sdata (heap world0 0)))
            | Some f \<Rightarrow> applyFilters (hostRt env0) (mapValues (sdata (heap world0 0))) f)
           = Inr [product ''b'' 20, product ''c'' 30]" for p
    by (simp add: optsW_def world0_def products_def product_def mapValues_def env0_def host0_def
        matchEntry_def typeof_object_def opOf_def get_field_def js_ge_def js_lt3_def
        to_primitive_def)
  have s: "[product ''c'' 30, product ''b'' 20] =
        (case sortBy (optsW p) of
           None \<Rightarrow> [product ''b'' 20, product ''c'' 30]
         | Some k \<Rightarrow> if k = [] then [product ''b'' 20, product ''c'' 30]
                     else applySorting (hostRt env0) [product ''b'' 20, product ''c'' 30] k
                            (case sortOrder (optsW p) of None \<Rightarrow> ''asc''
                             | Some d \<Rightarrow> if d = [] then ''asc'' else d))" for p
    by (simp add: optsW_def product_def applySorting_def stableSort_def compareItems_def
        get_field_def strict_eq_def js_gt_def js_lt3_def to_primitive_def env0_def host0_def)
  have p1: "(1::int) = (case page (optsW 1) of None \<Rightarrow> 1 | Some p \<Rightarrow> if p = 0 then 1 else p)"
    and p3: "(3::int) = (case page (optsW 3) of None \<Rightarrow> 1 | Some p \<Rightarrow> if p = 0 then 1 else p)"
    and l: "(1::int) = (case limit (optsW p) of None \<Rightarrow> 20 | Some l \<Rightarrow> if l = 0 then 20 else l)" for p
    by (simp_all add: optsW_def)
  show ?thesis
    using query_pipeline [OF i p1 l _ _ f s] query_pipeline [OF i p3 l _ _ f s]
    by simp
qed

section \<open>Properties of insert, update and replace\<close>

text \<open>
  Claim C5. For a record stored under its own id in an initialized store, \<open>update\<close> and
  \<open>replace\<close> with any payload return and store a record whose \<open>id\<close> and \<open>createdAt\<close> are
  those of the existing record and whose \<open>updatedAt\<close> is the clock's reading at the call.
\<close>

theorem update_replace_preserve_identity:
  assumes "initialized (heap w this)"
    and "mapGet (sdata (heap w this)) ident = Some existing"
    and "get_field existing ''id'' = ident"
  shows "(\<exists>updated w'.
           update env this ident payload w = (Inr (Some updated), w')
         \<and> mapGet (sdata (heap w' this)) ident = Some updated
         \<and> get_field updated ''id'' = get_field existing ''id''
         \<and> get_field updated ''createdAt'' = get_field existing ''createdAt''
         \<and> get_field updated ''updatedAt'' = JStr (clockISO (rand env) (ticks w)))
       \<and> (\<exists>replaced w'.
           replace env this ident payload w = (Inr (Some replaced), w')
         \<and> mapGet (sdata (heap w' this)) ident = Some replaced
         \<and> get_field replaced ''id'' = get_field existing ''id''
         \<and> get_field replaced ''createdAt'' = get_field existing ''createdAt''
         \<and> get_field replaced ''updatedAt'' = JStr (clockISO (rand env) (ticks w)))"
  using assms
  by (simp add: update_def replace_def initialize_done readClock_eq persistUpdate_unit Let_def)

theorem update_replace_preserve_identity_witness:
  "initialized (heap world0 0)
   \<and> mapGet (sdata (heap world0 0)) (JStr ''a'') = Some (product ''a'' 10)
   \<and> get_field (product ''a'' 10) ''id'' = JStr ''a''
   \<and> get_field (resultItem (update env0 0 (JStr ''a'') intruder world0)) ''id'' = JStr ''a''
   \<and> get_field (resultItem (update env0 0 (JStr ''a'') intruder world0)) ''createdAt''
        = JStr ''2025-12-31T00:00:00.000Z''
   \<and> get_field (resultItem (update env0 0 (JStr ''a'') intruder world0)) ''price'' = JNum 1
   \<and> get_field (resultItem (replace env0 0 (JStr ''a'') intruder world0)) ''id'' = JStr ''a''
   \<and> get_field (resultItem (replace env0 0 (JStr ''a'') intruder world0)) ''createdAt''
        = JStr ''2025-12-31T00:00:00.000Z''
   \<and> get_field (resultItem (replace env0 0 (JStr ''a'') intruder world0)) ''updatedAt''
        = JStr ''2026-01-01T00:00:00.000Z''"
proof -
  have i: "initialized (heap world0 0)"
    by (simp add: world0_def products_def)
  have g: "mapGet (sdata (heap world0 0)) (JStr ''a'') = Some (product ''a'' 10)"
    by (simp add: world0_def products_def mapGet_def)
  have k: "get_field (product ''a'' 10) ''id'' = JStr ''a''"
    by (simp add: product_def get_field_def)
  have c: "get_field (product ''a'' 10) ''createdAt'' = JStr ''2025-12-31T00:00:00.000Z''"
    by (simp add: product_def get_field_def)
  have n: "clockISO (rand env0) (ticks world0) = ''2026-01-01T00:00:00.000Z''"
    by (simp add: env0_def rand0_def)
  have p: "get_field (resultItem (update env0 0 (JStr ''a'') intruder world0)) ''price'' = JNum 1"
    by code_simp
  show ?thesis
    using update_replace_preserve_identity [OF i g k, of env0 intruder] i g k c n p
    by (auto simp: resultItem_def)
qed

lemma initializeWithFKIntegrity_initialized:
  "initializeWithFKIntegrity env a pools w = (Inr u, w') \<Longrightarrow> initialized (heap w' a)"
  by (auto simp: initializeWithFKIntegrity_def Let_def persist_unit split: if_splits prod.splits sum.splits)

lemma initialize_initialized:
  "initialize env this w = (Inr u, w') \<Longrightarrow> initialized (heap w' this)"
  by (auto simp: initialize_def split: if_splits prod.splits sum.splits
      dest: initializeWithFKIntegrity_initialized)

lemma stampItem_fields:
  assumes "stampItem env it now w = (newItem, w')"
  shows "get_field newItem ''updatedAt'' = now"
    and "get_field newItem ''createdAt'' = js_or (get_field it ''createdAt'') now"
    and "truthy (get_field it ''id'') \<Longrightarrow> get_field newItem ''id'' = get_field it ''id''"
    and "\<not> truthy (get_field it ''id'') \<Longrightarrow>
           get_field newItem ''id'' = JStr (clockMs (rand env) (ticks w) @ ''-'' @ randomText (rand env) (mathPos w))"
    and "k \<noteq> ''id'' \<Longrightarrow> k \<noteq> ''createdAt'' \<Longrightarrow> k \<noteq> ''updatedAt'' \<Longrightarrow> get_field newItem k = get_field it k"
    and "heap w' = heap w"
  using assms by (auto simp: stampItem_def generateId_def Let_def split: if_splits)

text \<open>
  Claim C6, as amended. When \<open>insert\<close> returns a record: \<open>findById\<close> on its id returns
  that record; its id is the input's id when that is truthy and a generated one
  otherwise; its \<open>createdAt\<close> is the input's when that is truthy and the clock's reading
  otherwise; its \<open>updatedAt\<close> is the clock's reading in every case; and every other
  field is the input's.
\<close>

theorem insert_then_findById:
  assumes "insert_item env this it w = (Inr newItem, w')"
  shows "findById env this (get_field newItem ''id'') w' = (Inr (Some newItem), w')
       \<and> (truthy (get_field it ''id'') \<longrightarrow> get_field newItem ''id'' = get_field it ''id'')
       \<and> (\<not> truthy (get_field it ''id'') \<longrightarrow>
            (\<exists>n m. get_field newItem ''id'' = JStr (clockMs (rand env) n @ ''-'' @ randomText (rand env) m)))
       \<and> (\<exists>n. get_field newItem ''updatedAt'' = JStr (clockISO (rand env) n)
              \<and> get_field newItem ''createdAt'' =
                  (if truthy (get_field it ''createdAt'') then get_field it ''createdAt''
                   else JStr (clockISO (rand env) n)))
       \<and> (\<forall>k. k \<noteq> ''id'' \<and> k \<noteq> ''createdAt'' \<and> k \<noteq> ''updatedAt'' \<longrightarrow>
            get_field newItem k = get_field it k)"
proof -
  from assms obtain w1 where ini: "initialize env this w = (Inr (), w1)"
    by (auto simp: insert_item_def split: prod.splits sum.splits)
  obtain w3 where st: "stampItem env it (JStr (clockISO (rand env) (ticks w1))) (w1\<lparr>ticks := Suc (ticks w1)\<rparr>)
      = (newItem, w3)"
    and w': "w' = withStore this ((heap w3 this)\<lparr>
                 sdata := mapSet (get_field newItem ''id'') newItem (sdata (heap w3 this))\<rparr>) w3"
    using assms ini
    by (auto simp: insert_item_def readClock_eq Let_def persistCreate_unit split: prod.splits)
  have h3: "heap w3 = heap w1"
    using stampItem_fields(6) [OF st] by simp
  have "initialized (heap w1 this)"
    using initialize_initialized [OF ini] .
  then have i': "initialized (heap w' this)"
    by (simp add: w' h3)
  have f: "findById env this (get_field newItem ''id'') w' = (Inr (Some newItem), w')"
    by (simp add: findById_def initialize_done [OF i']) (simp add: w')
  show ?thesis
    using f stampItem_fields(1-5) [OF st]
    by (auto simp: js_or_def)
qed

theorem insert_then_findById_witness:
  "fst (insert_item env0 0 dated world0) = Inr (insertedItem (insert_item env0 0 dated world0))
   \<and> findById env0 0 (JStr ''z'') (snd (insert_item env0 0 dated world0))
        = (Inr (Some (insertedItem (insert_item env0 0 dated world0))), snd (insert_item env0 0 dated world0))
   \<and> get_field (insertedItem (insert_item env0 0 dated world0)) ''id'' = JStr ''z''
   \<and> get_field (insertedItem (insert_item env0 0 dated world0)) ''price'' = JNum 5
   \<and> get_field (insertedItem (insert_item env0 0 dated world0)) ''createdAt''
        = JStr ''2026-01-01T00:00:00.000Z''"
proof -
  have i: "initialized (heap world0 0)"
    by (simp add: world0_def products_def)
  obtain r w' where e: "insert_item env0 0 dated world0 = (Inr r, w')"
    using insert_item_returns [OF i] by blast
  have t: "truthy (get_field dated ''id'')" "get_field dated ''id'' = JStr ''z''"
    "get_field dated ''price'' = JNum 5" "\<not> truthy (get_field dated ''createdAt'')"
    by (simp_all add: dated_def get_field_def)
  have c: "clockISO (rand env0) n = ''2026-01-01T00:00:00.000Z''" for n
    by (simp add: env0_def rand0_def)
  note th = insert_then_findById [OF e]
  have f: "findById env0 0 (get_field r ''id'') w' = (Inr (Some r), w')"
    using th by blast
  have d: "get_field r ''id'' = JStr ''z''"
    using th t(1,2) by simp
  from th have "\<forall>k. k \<noteq> ''id'' \<and> k \<noteq> ''createdAt'' \<and> k \<noteq> ''updatedAt'' \<longrightarrow>
      get_field r k = get_field dated k"
    by blast
  then have "get_field r ''price'' = get_field dated ''price''"
    by simp
  then have p: "get_field r ''price'' = JNum 5"
    using t(3) by simp
  from th obtain n where "get_field r ''createdAt'' =
      (if truthy (get_field dated ''createdAt'') then get_field dated ''createdAt''
       else JStr (clockISO (rand env0) n))"
    by blast
  then have a: "get_field r ''createdAt'' = JStr ''2026-01-01T00:00:00.000Z''"
    using t(4) c by simp
  have s: "insertedItem (insert_item env0 0 dated world0) = r"
    "snd (insert_item env0 0 dated world0) = w'"
    "fst (insert_item env0 0 dated world0) = Inr r"
    by (simp_all add: e insertedItem_def)
  show ?thesis
    unfolding s using f d p a by simp
qed

text \<open>
  Claim C6 as stated fails for an input that carries an \<open>updatedAt\<close>: the stored record,
  which \<open>findById\<close> returns, has the clock's reading in its place.
\<close>

theorem insert_overwrites_updatedAt_counterexample:
  "get_field dated ''updatedAt'' = JStr ''2020-01-01T00:00:00.000Z''
   \<and> get_field (insertedItem (insert_item env0 0 dated world0)) ''updatedAt''
        = JStr ''2026-01-01T00:00:00.000Z''
   \<and> fst (findById env0 0 (JStr ''z'') (snd (insert_item env0 0 dated world0)))
        = Inr (Some (insertedItem (insert_item env0 0 dated world0)))"
  by code_simp

text \<open>
  Claim C7, as amended. For a record stored under its own id in an initialized store,
  \<open>update(id, {})\<close> leaves every field but \<open>updatedAt\<close> as it was and sets \<open>updatedAt\<close> to
  the clock's reading at the call.
\<close>

theorem update_empty_touches_updatedAt_only:
  assumes "initialized (heap w this)"
    and "mapGet (sdata (heap w this)) ident = Some existing"
    and "get_field existing ''id'' = ident"
  shows "\<exists>updated w'.
           update env this ident [] w = (Inr (Some updated), w')
         \<and> mapGet (sdata (heap w' this)) ident = Some updated
         \<and> (\<forall>k. k \<noteq> ''updatedAt'' \<longrightarrow> get_field updated k = get_field existing k)
         \<and> get_field updated ''updatedAt'' = JStr (clockISO (rand env) (ticks w))"
  using assms
  by (auto simp add: update_def initialize_done readClock_eq persistUpdate_unit Let_def)

theorem update_empty_touches_updatedAt_only_witness:
  "initialized (heap world0 0)
   \<and> mapGet (sdata (heap world0 0)) (JStr ''b'') = Some (product ''b'' 20)
   \<and> get_field (product ''b'' 20) ''id'' = JStr ''b''
   \<and> get_field (resultItem (update env0 0 (JStr ''b'') [] world0)) ''price'' = JNum 20
   \<and> get_field (resultItem (update env0 0 (JStr ''b'') [] world0)) ''id'' = JStr ''b''
   \<and> get_field (resultItem (update env0 0 (JStr ''b'') [] world0)) ''createdAt''
        = JStr ''2025-12-31T00:00:00.000Z''
   \<and> get_field (resultItem (update env0 0 (JStr ''b'') [] world0)) ''updatedAt''
        = JStr ''2026-01-01T00:00:00.000Z''"
proof -
  have i: "initialized (heap world0 0)"
    by (simp add: world0_def products_def)
  have g: "mapGet (sdata (heap world0 0)) (JStr ''b'') = Some (product ''b'' 20)"
    by (simp add: world0_def products_def mapGet_def)
  have k: "get_field (product ''b'' 20) ''id'' = JStr ''b''"
    "get_field (product ''b'' 20) ''price'' = JNum 20"
    "get_field (product ''b'' 20) ''createdAt'' = JStr ''2025-12-31T00:00:00.000Z''"
    by (simp_all add: product_def get_field_def)
  have n: "clockISO (rand env0) (ticks world0) = ''2026-01-01T00:00:00.000Z''"
    by (simp add: env0_def rand0_def)
  show ?thesis
    using update_empty_touches_updatedAt_only [OF i g k(1), of env0] i g k n
    by (auto simp: resultItem_def)
qed

text \<open>
  Claim C7 as stated fails when the clock reads the same at the insert and at the
  update that follows it: the two \<open>updatedAt\<close> are equal, so the second is not greater.
\<close>

theorem update_same_millisecond_counterexample:
  "(case insert_item env0 0 [(''id'', JStr ''z'')] world0 of
      (Inr created, w1) \<Rightarrow>
        (case update env0 0 (JStr ''z'') [] w1 of
           (Inr (Some updated), w2) \<Rightarrow>
             get_field updated ''updatedAt'' = get_field created ''updatedAt''
             \<and> \<not> js_gt host0 (get_field updated ''updatedAt'') (get_field created ''updatedAt'')
         | _ \<Rightarrow> False)
    | _ \<Rightarrow> False)"
  by code_simp

section \<open>Properties of coordinated seeding\<close>

subsection \<open>The generators leave the stores alone\<close>

lemma heap_readClock [simp]: "heap (snd (readClock env w)) = heap w"
  by (simp add: readClock_def)

lemma heap_generateId [simp]: "heap (snd (generateId env w)) = heap w"
  by (simp add: generateId_def)

lemma heap_stampItem [simp]: "heap (snd (stampItem env it now w)) = heap w"
  by (simp add: stampItem_def Let_def)

lemma heap_stampValue [simp]: "heap (snd (stampValue env v now w)) = heap w"
  by (simp add: stampValue_def split: prod.splits) (metis heap_stampItem snd_conv)


lemma heap_generateWithFaker [simp]: "heap (snd (generateWithFaker env sch pools w)) = heap w"
  by (simp add: generateWithFaker_def Let_def split: prod.splits)

lemma heap_fakerSeedData [simp]: "heap (snd (fakerSeedData env sch pools n w)) = heap w"
proof (induction n arbitrary: w)
  case 0
  then show ?case by simp
next
  case (Suc n)
  obtain v w1 where g: "generateWithFaker env sch pools w = (v, w1)"
    by (cases "generateWithFaker env sch pools w")
  obtain now w2 where c: "readClock env w1 = (now, w2)"
    by (cases "readClock env w1")
  obtain r w3 where s: "stampValue env v now w2 = (r, w3)"
    by (cases "stampValue env v now w2")
  have h: "heap w3 = heap w"
    using heap_generateWithFaker [of env sch pools w] heap_readClock [of env w1]
      heap_stampValue [of env v now w2] g c s by simp
  show ?case
    using g c s h Suc.IH [of w3]
    by (auto split: sum.splits prod.splits)
qed



subsection \<open>What one step of the loop changes\<close>








subsection \<open>A pooled foreign key comes from its pool\<close>





lemma get_field_Nil [simp]: "get_field [] k = JUndefined"
  by (simp add: get_field_def)














text \<open>
  Why the target has to be uninitialized when the pass begins: a store that is already
  initialized is passed over before its ids are recorded, so a collection seeded in a
  later pass gets no pool for it. Here the users' store holds the ids \<open>a\<close>, \<open>b\<close>, \<open>c\<close>
  from the start, and the orders are given made-up uuids.
\<close>

lemma initialized_target_not_recorded:
  "fst (initializeAllCollections envFK worldLate) = Inr ()
   \<and> mapKeys (sdata (heap (snd (initializeAllCollections envFK worldLate)) 2))
        = [JStr ''a'', JStr ''b'', JStr ''c'']
   \<and> fieldValues ''userId'' (heap (snd (initializeAllCollections envFK worldLate)) 3)
        = [JStr ''uuid-1'', JStr ''uuid-4'']"
  by code_simp


end
